theory Spec2Isabelle
  imports Main "HOL-Library.Word"
begin

unbundle bit_operations_syntax

section \<open>Constants of the system headers\<close>

text \<open>
  The driver is written against \<^verbatim>\<open>cerrno\<close>, \<^verbatim>\<open>climits\<close>, \<^verbatim>\<open>unistd.h\<close>, \<^verbatim>\<open>fcntl.h\<close> and
  \<^verbatim>\<open>sys/stat.h\<close>. Their macros are not part of the repository; the values below are the
  ones of Linux (octal values are given in the comments).
\<close>

type_synonym mode_t = "32 word"
type_synonym c_int = "32 word"
type_synonym jlong = "64 word"
type_synonym jint = "32 word"
type_synonym off_t = "64 word"

definition SUCCESS :: int where "SUCCESS = 0"
definition EPERM :: int where "EPERM = 1"
definition ENOENT :: int where "ENOENT = 2"
definition EIO :: int where "EIO = 5"
definition EACCES :: int where "EACCES = 13"
definition EEXIST :: int where "EEXIST = 17"
definition ENOTDIR :: int where "ENOTDIR = 20"
definition EISDIR :: int where "EISDIR = 21"
definition EINVAL :: int where "EINVAL = 22"
definition EFBIG :: int where "EFBIG = 27"
definition ENOTSUP :: int where "ENOTSUP = 95"
definition ECANCELED :: int where "ECANCELED = 125"

definition INT_MAX :: nat where "INT_MAX = 2147483647"
definition LLONG_MAX :: int where "LLONG_MAX = 9223372036854775807"

definition R_OK :: c_int where "R_OK = 4"
definition W_OK :: c_int where "W_OK = 2"
definition X_OK :: c_int where "X_OK = 1"

definition S_IRUSR :: c_int where "S_IRUSR = 256" \<comment> \<open>0400\<close>
definition S_IWUSR :: c_int where "S_IWUSR = 128" \<comment> \<open>0200\<close>
definition S_IXUSR :: c_int where "S_IXUSR = 64" \<comment> \<open>0100\<close>
definition S_IFMT :: mode_t where "S_IFMT = 61440" \<comment> \<open>0170000\<close>
definition S_IFDIR :: mode_t where "S_IFDIR = 16384" \<comment> \<open>0040000\<close>
definition S_IFREG :: mode_t where "S_IFREG = 32768" \<comment> \<open>0100000\<close>

definition O_RDONLY :: c_int where "O_RDONLY = 0"
definition O_WRONLY :: c_int where "O_WRONLY = 1"
definition O_RDWR :: c_int where "O_RDWR = 2"
definition O_EXCL :: c_int where "O_EXCL = 128" \<comment> \<open>0200\<close>

section \<open>Command line options (fuse-operations.cpp)\<close>

definition PERMISSION_MASK :: mode_t where "PERMISSION_MASK = 511" \<comment> \<open>0777\<close>

record option_list =
  hostname :: string
  file_mode :: mode_t
  directory_mode :: mode_t
  log_file :: "string option"

text \<open>The initial value of the global \<^verbatim>\<open>options\<close>: 127.0.0.1, 0644, 0755, no log file.\<close>

definition options_default :: option_list where
  "options_default =
     \<lparr>hostname = ''127.0.0.1'', file_mode = 420, directory_mode = 493, log_file = None\<rparr>"

text \<open>
  \<^verbatim>\<open>fuse_opt_parse\<close> belongs to the FUSE library. It is a parameter here: given the argument
  vector and the current options it returns its result code, the remaining arguments and
  the options with the fields named by \<^verbatim>\<open>option_patterns\<close> overwritten.
\<close>

type_synonym fuse_opt_parse_t = "string list \<Rightarrow> option_list \<Rightarrow> int \<times> string list \<times> option_list"

definition parse_options ::
  "fuse_opt_parse_t \<Rightarrow> string list \<Rightarrow> option_list \<Rightarrow> bool \<times> string list \<times> option_list" where
  "parse_options fuse_opt_parse argv options =
     (case fuse_opt_parse argv options of
        (rc, argv', parsed) \<Rightarrow>
          (rc = SUCCESS, argv',
           parsed\<lparr>file_mode := file_mode parsed AND PERMISSION_MASK,
                  directory_mode := directory_mode parsed AND PERMISSION_MASK\<rparr>))"

section \<open>Mode policy and path classification (fuse-operations.cpp)\<close>

definition dfs_is_root :: "string \<Rightarrow> bool" where
  "dfs_is_root path = (path = ''/'')"

text \<open>A C condition \<^verbatim>\<open>(a & b)\<close> is true when the conjunction is not zero.\<close>

definition dfs_may_access :: "c_int \<Rightarrow> c_int \<Rightarrow> int" where
  "dfs_may_access mode request =
     (if request AND R_OK \<noteq> 0 \<and> mode AND S_IRUSR = 0 then - EACCES
      else if request AND W_OK \<noteq> 0 \<and> mode AND S_IWUSR = 0 then - EACCES
      else if request AND X_OK \<noteq> 0 \<and> mode AND S_IXUSR = 0 then - EACCES
      else SUCCESS)"

definition dfs_listing_allowed :: "option_list \<Rightarrow> bool" where
  "dfs_listing_allowed options = (dfs_may_access (directory_mode options) R_OK = SUCCESS)"

definition dfs_directory_modification_allowed :: "option_list \<Rightarrow> bool" where
  "dfs_directory_modification_allowed options =
     (dfs_may_access (directory_mode options) W_OK = SUCCESS)"

definition dfs_traversals_allowed :: "option_list \<Rightarrow> bool" where
  "dfs_traversals_allowed options = (dfs_may_access (directory_mode options) X_OK = SUCCESS)"

section \<open>The JNI wrapper (java.cpp)\<close>

text \<open>
  A Java exception is known to the driver through \<^verbatim>\<open>IsInstanceOf\<close> only. It is modelled by
  the name of its class followed by the names of the superclasses of that class, and the
  text its \<^verbatim>\<open>toString\<close> gives.
\<close>

datatype jthrowable = Throwable (class_chain: "string list") (description: string)

definition IsInstanceOf :: "jthrowable \<Rightarrow> string \<Rightarrow> bool" where
  "IsInstanceOf exception cls = (cls \<in> set (class_chain exception))"

text \<open>Arguments of a Java method: a byte array (by its contents), a long, an int.\<close>

datatype jvalue = JByteArray string | JLong jlong | JInt jint

text \<open>
  What \<^verbatim>\<open>java_call\<close> leaves to its caller: the value it returns, the exception it stores
  through its reference parameter (\<^verbatim>\<open>NULL\<close> is \<open>None\<close>) and the result of the method.
\<close>

record 'a call_outcome =
  call_success :: bool
  call_exception :: "jthrowable option"
  call_result :: 'a

text \<open>
  Everything outside the driver (the Java virtual machine with the remote servers behind
  it, the mutex and the file system) has a state of type \<open>'s\<close> and answers through the
  functions of this record; every answer may depend on the whole history. The record is a
  parameter of the model.
\<close>

record 's platform =
  AttachCurrentThread :: "'s \<Rightarrow> bool \<times> 's"
  DetachCurrentThread :: "'s \<Rightarrow> 's"
  GetEnv :: "'s \<Rightarrow> bool"
  FindClass :: "'s \<Rightarrow> string \<Rightarrow> bool"
  encode_ok :: "'s \<Rightarrow> string \<Rightarrow> bool \<times> 's"
  decode_ok :: "'s \<Rightarrow> string \<Rightarrow> bool \<times> 's"
  call_void :: "'s \<Rightarrow> string \<Rightarrow> string \<Rightarrow> jvalue list \<Rightarrow> unit call_outcome \<times> 's"
  call_boolean :: "'s \<Rightarrow> string \<Rightarrow> string \<Rightarrow> jvalue list \<Rightarrow> bool call_outcome \<times> 's"
  call_long :: "'s \<Rightarrow> string \<Rightarrow> string \<Rightarrow> jvalue list \<Rightarrow> jlong call_outcome \<times> 's"
  call_object :: "'s \<Rightarrow> string \<Rightarrow> string \<Rightarrow> jvalue list \<Rightarrow> string call_outcome \<times> 's"
  describe_exception :: "'s \<Rightarrow> jthrowable \<Rightarrow> string \<Rightarrow> bool \<Rightarrow> string \<times> 's"
  load_classes :: "'s \<Rightarrow> jthrowable option \<times> 's"
  GetDefaultJavaVMInitArgs :: "'s \<Rightarrow> bool \<times> 's"
  CreateJavaVM :: "'s \<Rightarrow> bool \<times> 's"
  DestroyJavaVM :: "'s \<Rightarrow> 's"
  pthread_mutex_init :: "'s \<Rightarrow> bool \<times> 's"
  pthread_mutex_lock :: "'s \<Rightarrow> bool \<times> 's"
  fopen_ok :: "'s \<Rightarrow> string \<Rightarrow> string \<Rightarrow> bool \<times> 's"

text \<open>
  The state a handler runs in: the outside, whether the current thread is attached to the
  virtual machine, how often it has been attached (by a \<^verbatim>\<open>java_attach\<close> that returned true,
  and by \<^verbatim>\<open>JNI_CreateJavaVM\<close>, which attaches the thread that creates the machine), how often
  \<^verbatim>\<open>java_detach\<close> was called, the calls of \<^verbatim>\<open>java_call\<close> made so far, and the contents of the
  log file.
\<close>

record 's world =
  outside :: 's
  attached :: bool
  attach_count :: nat
  detach_count :: nat
  remote_calls :: "(string \<times> string \<times> jvalue list) list"
  log_contents :: string

definition java_attach :: "'s platform \<Rightarrow> 's world \<Rightarrow> bool \<times> 's world" where
  "java_attach P w =
     (case AttachCurrentThread P (outside w) of
        (ok, s) \<Rightarrow>
          (ok, w\<lparr>outside := s,
                 attached := (if ok then True else attached w),
                 attach_count := (if ok then Suc (attach_count w) else attach_count w)\<rparr>))"

definition java_detach :: "'s platform \<Rightarrow> 's world \<Rightarrow> 's world" where
  "java_detach P w =
     w\<lparr>outside := DetachCurrentThread P (outside w),
       attached := False,
       detach_count := Suc (detach_count w)\<rparr>"

definition java_initialize :: "'s platform \<Rightarrow> 's world \<Rightarrow> bool \<times> 's world" where
  "java_initialize P w =
     (case GetDefaultJavaVMInitArgs P (outside w) of
        (ok, s1) \<Rightarrow>
          if \<not> ok then (False, w\<lparr>outside := s1\<rparr>)
          else (case CreateJavaVM P s1 of
                  (created, s2) \<Rightarrow>
                    if \<not> created then (False, w\<lparr>outside := s2\<rparr>)
                    else (True, java_detach P (w\<lparr>outside := s2, attached := True,
                                                attach_count := Suc (attach_count w)\<rparr>))))"

definition java_load_classes :: "'s platform \<Rightarrow> 's world \<Rightarrow> jthrowable option \<times> 's world" where
  "java_load_classes P w =
     (case load_classes P (outside w) of (exception, s) \<Rightarrow> (exception, w\<lparr>outside := s\<rparr>))"

definition java_destroy :: "'s platform \<Rightarrow> 's world \<Rightarrow> 's world" where
  "java_destroy P w = w\<lparr>outside := DestroyJavaVM P (outside w)\<rparr>"

subsection \<open>The exception table\<close>

definition DEFAULT_ERROR :: int where "DEFAULT_ERROR = EIO"

definition exceptions :: "(string \<times> int) list" where
  "exceptions =
     [(''java/lang/IllegalArgumentException'', EINVAL),
      (''java/lang/IndexOutOfBoundsException'', EINVAL),
      (''java/io/FileNotFoundException'', ENOENT)]"

text \<open>The loop of \<^verbatim>\<open>java_error_code\<close> over the entries that are left.\<close>

fun error_code_from :: "'s platform \<Rightarrow> 's \<Rightarrow> jthrowable \<Rightarrow> (string \<times> int) list \<Rightarrow> int" where
  "error_code_from P s exception [] = DEFAULT_ERROR"
| "error_code_from P s exception (entry # entries) =
     (if \<not> FindClass P s (fst entry) then error_code_from P s exception entries
      else if IsInstanceOf exception (fst entry) then snd entry
      else error_code_from P s exception entries)"

definition java_error_code :: "'s platform \<Rightarrow> 's world \<Rightarrow> jthrowable \<Rightarrow> int" where
  "java_error_code P w exception =
     (if \<not> GetEnv P (outside w) then DEFAULT_ERROR
      else error_code_from P (outside w) exception exceptions)"

definition java_describe_exception ::
  "'s platform \<Rightarrow> jthrowable \<Rightarrow> string \<Rightarrow> bool \<Rightarrow> 's world \<Rightarrow> 's world" where
  "java_describe_exception P exception filename stack_trace w =
     (case describe_exception P (outside w) exception filename stack_trace of
        (written, s) \<Rightarrow> w\<lparr>outside := s, log_contents := log_contents w @ written\<rparr>)"

subsection \<open>Strings and buffers\<close>

text \<open>
  A native buffer is the memory from its first byte on. \<^verbatim>\<open>size_t\<close> is 64 bits wide.
\<close>

type_synonym buffer = "nat \<Rightarrow> char"

definition bytes_at :: "buffer \<Rightarrow> nat \<Rightarrow> string" where
  "bytes_at buffer len = map buffer [0..<len]"

definition memset_at :: "buffer \<Rightarrow> nat \<Rightarrow> char \<Rightarrow> nat \<Rightarrow> buffer" where
  "memset_at buffer start c n = (\<lambda>i. if start \<le> i \<and> i < start + n then c else buffer i)"

definition memcpy_to :: "buffer \<Rightarrow> string \<Rightarrow> buffer" where
  "memcpy_to buffer source = (\<lambda>i. if i < length source then source ! i else buffer i)"

definition size_t_minus :: "nat \<Rightarrow> nat \<Rightarrow> nat" where
  "size_t_minus a b = nat ((int a - int b) mod 2 ^ 64)"

definition size_t_to_int :: "nat \<Rightarrow> int" where
  "size_t_to_int n = sint (word_of_nat n :: 32 word)"

definition java_encode :: "'s platform \<Rightarrow> string \<Rightarrow> 's world \<Rightarrow> string option \<times> 's world" where
  "java_encode P bytes w =
     (case encode_ok P (outside w) bytes of
        (ok, s) \<Rightarrow> ((if ok then Some bytes else None), w\<lparr>outside := s\<rparr>))"

text \<open>
  \<^verbatim>\<open>java_decode(byte_array, length, buffer)\<close>: the success flag, the array length and the
  buffer after the copy.
\<close>

definition java_decode ::
  "'s platform \<Rightarrow> string \<Rightarrow> buffer \<Rightarrow> 's world \<Rightarrow> bool \<times> nat \<times> buffer \<times> 's world" where
  "java_decode P byte_array buffer w =
     (case decode_ok P (outside w) byte_array of
        (ok, s) \<Rightarrow>
          (ok, length byte_array,
           (if ok then memcpy_to buffer byte_array else buffer), w\<lparr>outside := s\<rparr>))"

text \<open>\<^verbatim>\<open>java_decode(byte_array, length)\<close>: a fresh copy of the array, or \<^verbatim>\<open>NULL\<close>.\<close>

definition java_decode_new :: "'s platform \<Rightarrow> string \<Rightarrow> 's world \<Rightarrow> string option \<times> 's world" where
  "java_decode_new P byte_array w =
     (if \<not> GetEnv P (outside w) then (None, w)
      else (case decode_ok P (outside w) byte_array of
              (ok, s) \<Rightarrow> ((if ok then Some byte_array else None), w\<lparr>outside := s\<rparr>)))"

subsection \<open>Method calls\<close>

definition record_call :: "string \<Rightarrow> string \<Rightarrow> jvalue list \<Rightarrow> 's \<Rightarrow> 's world \<Rightarrow> 's world" where
  "record_call method signature args s w =
     w\<lparr>outside := s, remote_calls := remote_calls w @ [(method, signature, args)]\<rparr>"

definition java_call_void ::
  "'s platform \<Rightarrow> string \<Rightarrow> string \<Rightarrow> jvalue list \<Rightarrow> 's world \<Rightarrow> unit call_outcome \<times> 's world" where
  "java_call_void P method signature args w =
     (case call_void P (outside w) method signature args of
        (out, s) \<Rightarrow> (out, record_call method signature args s w))"

definition java_call_boolean ::
  "'s platform \<Rightarrow> string \<Rightarrow> string \<Rightarrow> jvalue list \<Rightarrow> 's world \<Rightarrow> bool call_outcome \<times> 's world" where
  "java_call_boolean P method signature args w =
     (case call_boolean P (outside w) method signature args of
        (out, s) \<Rightarrow> (out, record_call method signature args s w))"

definition java_call_long ::
  "'s platform \<Rightarrow> string \<Rightarrow> string \<Rightarrow> jvalue list \<Rightarrow> 's world \<Rightarrow> jlong call_outcome \<times> 's world" where
  "java_call_long P method signature args w =
     (case call_long P (outside w) method signature args of
        (out, s) \<Rightarrow> (out, record_call method signature args s w))"

definition java_call_object ::
  "'s platform \<Rightarrow> string \<Rightarrow> string \<Rightarrow> jvalue list \<Rightarrow> 's world \<Rightarrow> string call_outcome \<times> 's world" where
  "java_call_object P method signature args w =
     (case call_object P (outside w) method signature args of
        (out, s) \<Rightarrow> (out, record_call method signature args s w))"

section \<open>Error reporting and logging (fuse-operations.cpp)\<close>

definition newline :: string where "newline = [CHR 0x0A]"

definition log_initialize :: "'s platform \<Rightarrow> option_list \<Rightarrow> 's world \<Rightarrow> bool \<times> 's world" where
  "log_initialize P options w =
     (case log_file options of
        None \<Rightarrow> (True, w)
      | Some name \<Rightarrow>
          (case pthread_mutex_init P (outside w) of
             (ok, s1) \<Rightarrow>
               if \<not> ok then (False, w\<lparr>outside := s1\<rparr>)
               else (case fopen_ok P s1 name ''w'' of
                       (opened, s2) \<Rightarrow>
                         if \<not> opened then (False, w\<lparr>outside := s2\<rparr>)
                         else (True, w\<lparr>outside := s2, log_contents := []\<rparr>))))"

text \<open>\<^verbatim>\<open>log_write_real\<close>, with the formatted message as its argument.\<close>

definition log_write_real :: "'s platform \<Rightarrow> option_list \<Rightarrow> string \<Rightarrow> 's world \<Rightarrow> 's world" where
  "log_write_real P options message w =
     (case log_file options of
        None \<Rightarrow> w
      | Some name \<Rightarrow>
          (case pthread_mutex_lock P (outside w) of
             (ok, s1) \<Rightarrow>
               if \<not> ok then w\<lparr>outside := s1\<rparr>
               else (case fopen_ok P s1 name ''a'' of
                       (opened, s2) \<Rightarrow>
                         if \<not> opened then w\<lparr>outside := s2\<rparr>
                         else w\<lparr>outside := s2, log_contents := log_contents w @ message\<rparr>)))"

definition log_exception_real ::
  "'s platform \<Rightarrow> option_list \<Rightarrow> jthrowable \<Rightarrow> bool \<Rightarrow> 's world \<Rightarrow> 's world" where
  "log_exception_real P options exception stack_trace w =
     (case log_file options of
        None \<Rightarrow> w
      | Some name \<Rightarrow>
          (case pthread_mutex_lock P (outside w) of
             (ok, s1) \<Rightarrow>
               if \<not> ok then w\<lparr>outside := s1\<rparr>
               else java_describe_exception P exception name stack_trace (w\<lparr>outside := s1\<rparr>)))"

definition CANNOT_INITVM :: string where
  "CANNOT_INITVM = ''cannot initialize Java virtual machine.''"
definition CANNOT_ATTACH :: string where
  "CANNOT_ATTACH = ''cannot attach current thread to Java virtual machine.''"
definition CANNOT_LOAD :: string where
  "CANNOT_LOAD = ''cannot load one more Java classes.''"
definition CANNOT_INITFS :: string where
  "CANNOT_INITFS = ''cannot initialize filesystem.''"
definition CANNOT_ENCODE :: "string \<Rightarrow> string" where
  "CANNOT_ENCODE name = ''cannot to convert '' @ name @ '' to a Java byte array.''"
definition CANNOT_DECODE :: "string \<Rightarrow> string" where
  "CANNOT_DECODE name = ''cannot convert '' @ name @ '' to a native byte buffer.''"
definition CANNOT_CALL :: "string \<Rightarrow> string" where
  "CANNOT_CALL name = ''cannot call Java fuse.Fuse.'' @ name @ '' method.''"
definition CANNOT_DELETE :: string where
  "CANNOT_DELETE = ''cannot delete file or directory.''"
definition CANNOT_OPENDIR :: string where
  "CANNOT_OPENDIR = ''cannot open: path does not refer to a directory.''"

text \<open>
  The macros. \<open>func\<close> is \<^verbatim>\<open>__func__\<close>, \<open>error_name\<close> the stringified error macro. A macro
  that returns from the function using it gives the returned code with the state; the
  \<^verbatim>\<open>try_\<close> macros give that on the left of a sum and the state to continue in on the right.
\<close>

definition log_write :: "'s platform \<Rightarrow> option_list \<Rightarrow> string \<Rightarrow> string \<Rightarrow> 's world \<Rightarrow> 's world" where
  "log_write P options func message w =
     log_write_real P options (func @ '': '' @ message @ newline) w"

definition log_and_detach ::
  "'s platform \<Rightarrow> option_list \<Rightarrow> string \<Rightarrow> string \<Rightarrow> 's world \<Rightarrow> 's world" where
  "log_and_detach P options func message w =
     java_detach P (log_write_real P options (func @ '': '' @ message @ newline) w)"

definition log_error_and_return ::
  "'s platform \<Rightarrow> option_list \<Rightarrow> string \<Rightarrow> string \<Rightarrow> int \<Rightarrow> string \<Rightarrow> 's world \<Rightarrow> int \<times> 's world" where
  "log_error_and_return P options func error_name error message w =
     (- error,
      log_write_real P options (func @ '': '' @ error_name @ '': '' @ message @ newline) w)"

definition log_error_detach_and_return ::
  "'s platform \<Rightarrow> option_list \<Rightarrow> string \<Rightarrow> string \<Rightarrow> int \<Rightarrow> string \<Rightarrow> 's world \<Rightarrow> int \<times> 's world" where
  "log_error_detach_and_return P options func error_name error message w =
     (- error,
      java_detach P
        (log_write_real P options (func @ '': '' @ error_name @ '': '' @ message @ newline) w))"

definition log_exception_detach_and_return ::
  "'s platform \<Rightarrow> option_list \<Rightarrow> string \<Rightarrow> jthrowable \<Rightarrow> 's world \<Rightarrow> int \<times> 's world" where
  "log_exception_detach_and_return P options func exception w =
     (let error_code = java_error_code P w exception;
          w1 = log_write_real P options (func @ '': '') w;
          w2 = log_exception_real P options exception False w1
      in (- error_code, java_detach P w2))"

definition detach_and_return :: "'s platform \<Rightarrow> int \<Rightarrow> 's world \<Rightarrow> int \<times> 's world" where
  "detach_and_return P error w = (- error, java_detach P w)"

definition try_attach ::
  "'s platform \<Rightarrow> option_list \<Rightarrow> string \<Rightarrow> 's world \<Rightarrow> (int \<times> 's world) + 's world" where
  "try_attach P options func w =
     (case java_attach P w of
        (ok, w1) \<Rightarrow>
          if \<not> ok then Inl (log_error_and_return P options func ''EIO'' EIO CANNOT_ATTACH w1)
          else Inr w1)"

definition try_encode ::
  "'s platform \<Rightarrow> option_list \<Rightarrow> string \<Rightarrow> string \<Rightarrow> string \<Rightarrow> 's world
     \<Rightarrow> (int \<times> 's world) + (string \<times> 's world)" where
  "try_encode P options func source_name source w =
     (case java_encode P source w of
        (None, w1) \<Rightarrow>
          Inl (log_error_detach_and_return P options func ''EIO'' EIO
                 (CANNOT_ENCODE source_name) w1)
      | (Some array, w1) \<Rightarrow> Inr (array, w1))"

text \<open>
  What \<^verbatim>\<open>try_call\<close> and \<^verbatim>\<open>try_void_call\<close> do with the outcome of \<^verbatim>\<open>java_call\<close>: the exception
  is looked at first, then the success flag.
\<close>

definition try_call_outcome ::
  "'s platform \<Rightarrow> option_list \<Rightarrow> string \<Rightarrow> string \<Rightarrow> 'a call_outcome \<times> 's world
     \<Rightarrow> (int \<times> 's world) + ('a \<times> 's world)" where
  "try_call_outcome P options func method ow =
     (case ow of
        (out, w) \<Rightarrow>
          (case call_exception out of
             Some exception \<Rightarrow> Inl (log_exception_detach_and_return P options func exception w)
           | None \<Rightarrow>
               if \<not> call_success out
               then Inl (log_error_detach_and_return P options func ''EIO'' EIO
                           (CANNOT_CALL method) w)
               else Inr (call_result out, w)))"

definition try_call_boolean ::
  "'s platform \<Rightarrow> option_list \<Rightarrow> string \<Rightarrow> string \<Rightarrow> string \<Rightarrow> jvalue list \<Rightarrow> 's world
     \<Rightarrow> (int \<times> 's world) + (bool \<times> 's world)" where
  "try_call_boolean P options func method signature args w =
     try_call_outcome P options func method (java_call_boolean P method signature args w)"

definition try_call_long ::
  "'s platform \<Rightarrow> option_list \<Rightarrow> string \<Rightarrow> string \<Rightarrow> string \<Rightarrow> jvalue list \<Rightarrow> 's world
     \<Rightarrow> (int \<times> 's world) + (jlong \<times> 's world)" where
  "try_call_long P options func method signature args w =
     try_call_outcome P options func method (java_call_long P method signature args w)"

definition try_call_object ::
  "'s platform \<Rightarrow> option_list \<Rightarrow> string \<Rightarrow> string \<Rightarrow> string \<Rightarrow> jvalue list \<Rightarrow> 's world
     \<Rightarrow> (int \<times> 's world) + (string \<times> 's world)" where
  "try_call_object P options func method signature args w =
     try_call_outcome P options func method (java_call_object P method signature args w)"

definition try_void_call ::
  "'s platform \<Rightarrow> option_list \<Rightarrow> string \<Rightarrow> string \<Rightarrow> string \<Rightarrow> jvalue list \<Rightarrow> 's world
     \<Rightarrow> (int \<times> 's world) + (unit \<times> 's world)" where
  "try_void_call P options func method signature args w =
     try_call_outcome P options func method (java_call_void P method signature args w)"

section \<open>FUSE operations (fuse-operations.cpp)\<close>

subsection \<open>The stat structure\<close>

text \<open>
  \<^verbatim>\<open>struct stat\<close> is declared by the system headers. The structure is modelled as its bytes;
  where its fields lie, and the size of a pointer, are parameters. A field is given by its
  offset and its size, and holds its value with the least significant byte first.
\<close>

record stat_layout =
  sizeof_pointer :: nat
  sizeof_stat :: nat
  st_mode_field :: "nat \<times> nat"
  st_nlink_field :: "nat \<times> nat"
  st_size_field :: "nat \<times> nat"

primrec le_bytes :: "nat \<Rightarrow> nat \<Rightarrow> string" where
  "le_bytes 0 v = []"
| "le_bytes (Suc n) v = char_of (v mod 256) # le_bytes n (v div 256)"

primrec le_value :: "string \<Rightarrow> nat" where
  "le_value [] = 0"
| "le_value (c # cs) = of_char c + 256 * le_value cs"

definition store_field :: "string \<Rightarrow> nat \<times> nat \<Rightarrow> nat \<Rightarrow> string" where
  "store_field mem field v =
     take (fst field) mem @ le_bytes (snd field) v @ drop (fst field + snd field) mem"

definition load_field :: "string \<Rightarrow> nat \<times> nat \<Rightarrow> nat" where
  "load_field mem field = le_value (take (snd field) (drop (fst field) mem))"

definition memset_bytes :: "string \<Rightarrow> char \<Rightarrow> nat \<Rightarrow> string" where
  "memset_bytes mem c n = replicate n c @ drop n mem"

subsection \<open>Attributes, creation, deletion, truncation\<close>

definition dfs_getattr ::
  "'s platform \<Rightarrow> option_list \<Rightarrow> stat_layout \<Rightarrow> string \<Rightarrow> string \<Rightarrow> 's world
     \<Rightarrow> int \<times> string \<times> 's world" where
  "dfs_getattr P options abi path status w =
     (if \<not> dfs_is_root path \<and> \<not> dfs_traversals_allowed options then (- EACCES, status, w)
      else
       (case try_attach P options ''dfs_getattr'' w of
          Inl (r, w1) \<Rightarrow> (r, status, w1)
        | Inr w1 \<Rightarrow>
       (case try_encode P options ''dfs_getattr'' ''path'' path w1 of
          Inl (r, w2) \<Rightarrow> (r, status, w2)
        | Inr (java_path, w2) \<Rightarrow>
       (case try_call_boolean P options ''dfs_getattr'' ''directory'' ''([B)Z''
               [JByteArray java_path] w2 of
          Inl (r, w3) \<Rightarrow> (r, status, w3)
        | Inr (directory, w3) \<Rightarrow>
           (let cleared = memset_bytes status (CHR 0x00) (sizeof_pointer abi) in
            if directory then
              (case detach_and_return P SUCCESS w3 of
                 (r, w4) \<Rightarrow>
                   (r,
                    store_field
                      (store_field cleared (st_mode_field abi)
                         (unat (S_IFDIR OR directory_mode options)))
                      (st_nlink_field abi) 1,
                    w4))
            else
              (case try_call_long P options ''dfs_getattr'' ''size'' ''([B)J''
                      [JByteArray java_path] w3 of
                 Inl (r, w4) \<Rightarrow> (r, cleared, w4)
               | Inr (sz, w4) \<Rightarrow>
                   (case detach_and_return P SUCCESS w4 of
                      (r, w5) \<Rightarrow>
                        (r,
                         store_field
                           (store_field
                              (store_field cleared (st_mode_field abi)
                                 (unat (S_IFREG OR file_mode options)))
                              (st_size_field abi) (unat sz))
                           (st_nlink_field abi) 1,
                         w5))))))))"

definition dfs_mknod ::
  "'s platform \<Rightarrow> option_list \<Rightarrow> string \<Rightarrow> mode_t \<Rightarrow> nat \<Rightarrow> 's world \<Rightarrow> int \<times> 's world" where
  "dfs_mknod P options path mode device w =
     (if dfs_is_root path then (- EEXIST, w)
      else if \<not> dfs_traversals_allowed options then (- EACCES, w)
      else if \<not> dfs_directory_modification_allowed options then (- EACCES, w)
      else
       (case try_attach P options ''dfs_mknod'' w of
          Inl r \<Rightarrow> r
        | Inr w1 \<Rightarrow>
       (case try_encode P options ''dfs_mknod'' ''path'' path w1 of
          Inl r \<Rightarrow> r
        | Inr (java_path, w2) \<Rightarrow>
       (case try_call_boolean P options ''dfs_mknod'' ''createFile'' ''([B)Z''
               [JByteArray java_path] w2 of
          Inl r \<Rightarrow> r
        | Inr (created, w3) \<Rightarrow>
            (let w4 = java_detach P w3 in
             if \<not> created then (- EEXIST, w4) else (SUCCESS, w4))))))"

definition dfs_mkdir ::
  "'s platform \<Rightarrow> option_list \<Rightarrow> string \<Rightarrow> mode_t \<Rightarrow> 's world \<Rightarrow> int \<times> 's world" where
  "dfs_mkdir P options path mode w =
     (if dfs_is_root path then (- EEXIST, w)
      else if \<not> dfs_traversals_allowed options then (- EACCES, w)
      else if \<not> dfs_directory_modification_allowed options then (- EACCES, w)
      else
       (case try_attach P options ''dfs_mkdir'' w of
          Inl r \<Rightarrow> r
        | Inr w1 \<Rightarrow>
       (case try_encode P options ''dfs_mkdir'' ''path'' path w1 of
          Inl r \<Rightarrow> r
        | Inr (java_path, w2) \<Rightarrow>
       (case try_call_boolean P options ''dfs_mkdir'' ''createDirectory'' ''([B)Z''
               [JByteArray java_path] w2 of
          Inl r \<Rightarrow> r
        | Inr (created, w3) \<Rightarrow>
            (let w4 = java_detach P w3 in
             if \<not> created then (- EEXIST, w4) else (SUCCESS, w4))))))"

definition dfs_delete :: "'s platform \<Rightarrow> option_list \<Rightarrow> string \<Rightarrow> 's world \<Rightarrow> int \<times> 's world" where
  "dfs_delete P options path w =
     (if dfs_is_root path then (- EPERM, w)
      else if \<not> dfs_traversals_allowed options then (- EACCES, w)
      else if \<not> dfs_directory_modification_allowed options then (- EACCES, w)
      else
       (case try_attach P options ''dfs_delete'' w of
          Inl r \<Rightarrow> r
        | Inr w1 \<Rightarrow>
       (case try_encode P options ''dfs_delete'' ''path'' path w1 of
          Inl r \<Rightarrow> r
        | Inr (java_path, w2) \<Rightarrow>
       (case try_call_boolean P options ''dfs_delete'' ''delete'' ''([B)Z''
               [JByteArray java_path] w2 of
          Inl r \<Rightarrow> r
        | Inr (deleted, w3) \<Rightarrow>
            if \<not> deleted
            then log_error_detach_and_return P options ''dfs_delete'' ''EPERM'' EPERM
                   CANNOT_DELETE w3
            else detach_and_return P SUCCESS w3))))"

definition dfs_truncate ::
  "'s platform \<Rightarrow> option_list \<Rightarrow> string \<Rightarrow> int \<Rightarrow> 's world \<Rightarrow> int \<times> 's world" where
  "dfs_truncate P options path new_size w =
     (if new_size \<noteq> 0 then (- ENOTSUP, w)
      else if dfs_is_root path then (- EISDIR, w)
      else if \<not> dfs_traversals_allowed options then (- EACCES, w)
      else
       (case try_attach P options ''dfs_truncate'' w of
          Inl r \<Rightarrow> r
        | Inr w1 \<Rightarrow>
       (case try_encode P options ''dfs_truncate'' ''path'' path w1 of
          Inl r \<Rightarrow> r
        | Inr (java_path, w2) \<Rightarrow>
       (case try_call_boolean P options ''dfs_truncate'' ''directory'' ''([B)Z''
               [JByteArray java_path] w2 of
          Inl r \<Rightarrow> r
        | Inr (directory, w3) \<Rightarrow>
            if directory then detach_and_return P EISDIR w3
            else if dfs_may_access (file_mode options) W_OK \<noteq> SUCCESS
            then detach_and_return P EACCES w3
            else
             (case try_call_boolean P options ''dfs_truncate'' ''delete'' ''([B)Z''
                     [JByteArray java_path] w3 of
                Inl r \<Rightarrow> r
              | Inr (deleted, w4) \<Rightarrow>
                  if \<not> deleted
                  then log_error_detach_and_return P options ''dfs_truncate'' ''EPERM'' EPERM
                         CANNOT_DELETE w4
                  else
                   (case try_call_boolean P options ''dfs_truncate'' ''createFile'' ''([B)Z''
                           [JByteArray java_path] w4 of
                      Inl r \<Rightarrow> r
                    | Inr (created, w5) \<Rightarrow>
                        (let w6 = java_detach P w5 in
                         if \<not> created then (- ECANCELED, w6) else (SUCCESS, w6))))))))"

subsection \<open>Open, read, write\<close>

record fuse_file_info =
  flags :: c_int
  fh :: "64 word"

definition dfs_open ::
  "'s platform \<Rightarrow> option_list \<Rightarrow> string \<Rightarrow> fuse_file_info \<Rightarrow> 's world
     \<Rightarrow> int \<times> fuse_file_info \<times> 's world" where
  "dfs_open P options path file_info w =
     (if dfs_is_root path then (- ENOENT, file_info, w)
      else if \<not> dfs_traversals_allowed options then (- EACCES, file_info, w)
      else
       (case try_attach P options ''dfs_open'' w of
          Inl (r, w1) \<Rightarrow> (r, file_info, w1)
        | Inr w1 \<Rightarrow>
       (case try_encode P options ''dfs_open'' ''path'' path w1 of
          Inl (r, w2) \<Rightarrow> (r, file_info, w2)
        | Inr (java_path, w2) \<Rightarrow>
       (case try_call_long P options ''dfs_open'' ''size'' ''([B)J''
               [JByteArray java_path] w2 of
          Inl (r, w3) \<Rightarrow> (r, file_info, w3)
        | Inr (sz, w3) \<Rightarrow>
            (let w4 = java_detach P w3 in
             if flags file_info AND O_RDWR = O_RDWR
                \<and> dfs_may_access (file_mode options) (R_OK OR W_OK) \<noteq> SUCCESS
             then (- EACCES, file_info, w4)
             else if flags file_info AND O_RDONLY = O_RDONLY
                \<and> dfs_may_access (file_mode options) R_OK \<noteq> SUCCESS
             then (- EACCES, file_info, w4)
             else if flags file_info AND O_WRONLY = O_WRONLY
                \<and> dfs_may_access (file_mode options) W_OK \<noteq> SUCCESS
             then (- EACCES, file_info, w4)
             else if flags file_info AND O_EXCL \<noteq> 0 then (- ENOTSUP, file_info, w4)
             else (SUCCESS, file_info\<lparr>fh := sz\<rparr>, w4))))))"

text \<open>
  The offset of \<^verbatim>\<open>dfs_read\<close> and \<^verbatim>\<open>dfs_write\<close> is an \<^verbatim>\<open>off_t\<close>: a 64-bit integer with a
  sign (the FUSE library is built for 64-bit file offsets), read by \<open>sint\<close>. It is passed on
  as a \<^verbatim>\<open>jlong\<close> as it is. In \<^verbatim>\<open>offset + length\<close> the offset is converted to the unsigned
  64-bit \<^verbatim>\<open>size_t\<close> of the length, the sum wraps around, and the comparison with
  \<^verbatim>\<open>LLONG_MAX\<close> is unsigned (\<open>uint\<close>).
\<close>

definition dfs_read ::
  "'s platform \<Rightarrow> option_list \<Rightarrow> string \<Rightarrow> buffer \<Rightarrow> nat \<Rightarrow> off_t \<Rightarrow> fuse_file_info
     \<Rightarrow> 's world \<Rightarrow> int \<times> buffer \<times> 's world" where
  "dfs_read P options path buffer len offset file_info w =
     (let java_length = (if len > INT_MAX then word_of_nat INT_MAX else word_of_nat len) in
      if sint offset > LLONG_MAX then (0, memset_at buffer 0 (CHR 0x00) len, w)
      else
       (let java_offset = offset in
       (case try_attach P options ''dfs_read'' w of
          Inl (r, w1) \<Rightarrow> (r, buffer, w1)
        | Inr w1 \<Rightarrow>
       (case try_encode P options ''dfs_read'' ''path'' path w1 of
          Inl (r, w2) \<Rightarrow> (r, buffer, w2)
        | Inr (java_path, w2) \<Rightarrow>
       (case try_call_object P options ''dfs_read'' ''read'' ''([BJIJ)[B''
               [JByteArray java_path, JLong java_offset, JInt java_length,
                JLong (fh file_info)] w2 of
          Inl (r, w3) \<Rightarrow> (r, buffer, w3)
        | Inr (received_buffer, w3) \<Rightarrow>
           (case java_decode P received_buffer buffer w3 of
              (ok, received_length, buffer1, w4) \<Rightarrow>
                if \<not> ok
                then (case log_error_detach_and_return P options ''dfs_read'' ''EIO'' EIO
                             (CANNOT_DECODE ''received_buffer'') w4 of
                        (r, w5) \<Rightarrow> (r, buffer1, w5))
                else (size_t_to_int received_length,
                      memset_at buffer1 received_length (CHR 0x00)
                        (size_t_minus len received_length),
                      java_detach P w4)))))))"

definition dfs_write ::
  "'s platform \<Rightarrow> option_list \<Rightarrow> string \<Rightarrow> buffer \<Rightarrow> nat \<Rightarrow> off_t \<Rightarrow> fuse_file_info
     \<Rightarrow> 's world \<Rightarrow> int \<times> 's world" where
  "dfs_write P options path buffer len offset file_info w =
     (let len1 = (if len > INT_MAX then INT_MAX else len) in
      if sint offset > LLONG_MAX then (- EFBIG, w)
      else if uint (offset + word_of_nat len1) > LLONG_MAX then (- EFBIG, w)
      else
       (case try_attach P options ''dfs_write'' w of
          Inl r \<Rightarrow> r
        | Inr w1 \<Rightarrow>
       (case try_encode P options ''dfs_write'' ''path'' path w1 of
          Inl r \<Rightarrow> r
        | Inr (java_path, w2) \<Rightarrow>
       (case java_encode P (bytes_at buffer len1) w2 of
          (None, w3) \<Rightarrow>
            log_error_detach_and_return P options ''dfs_write'' ''EIO'' EIO
              (CANNOT_ENCODE ''buffer'') w3
        | (Some java_buffer, w3) \<Rightarrow>
       (case try_void_call P options ''dfs_write'' ''write'' ''([BJ[B)V''
               [JByteArray java_path, JLong offset, JByteArray java_buffer] w3 of
          Inl r \<Rightarrow> r
        | Inr (u, w4) \<Rightarrow> (size_t_to_int len1, java_detach P w4))))))"

subsection \<open>Operations that do nothing remote\<close>

record statvfs =
  f_bsize :: nat
  f_blocks :: nat
  f_bfree :: nat
  f_bavail :: nat

definition dfs_statfs :: "string \<Rightarrow> statvfs \<Rightarrow> int \<times> statvfs" where
  "dfs_statfs path statistics =
     (SUCCESS, statistics\<lparr>f_bsize := 1048576, f_blocks := 1048576, f_bfree := 1048576,
                          f_bavail := 1048576\<rparr>)"

definition dfs_flush :: "string \<Rightarrow> fuse_file_info \<Rightarrow> int" where
  "dfs_flush path file_info = SUCCESS"

definition dfs_release :: "string \<Rightarrow> fuse_file_info \<Rightarrow> int" where
  "dfs_release path file_info = SUCCESS"

definition dfs_fsync :: "string \<Rightarrow> c_int \<Rightarrow> fuse_file_info \<Rightarrow> int" where
  "dfs_fsync path datasync file_info = SUCCESS"

definition dfs_releasedir :: "string \<Rightarrow> fuse_file_info \<Rightarrow> int" where
  "dfs_releasedir path file_info = SUCCESS"

definition dfs_fsyncdir :: "string \<Rightarrow> c_int \<Rightarrow> fuse_file_info \<Rightarrow> int" where
  "dfs_fsyncdir path datasync file_info = SUCCESS"

subsection \<open>Directories and access\<close>

definition dfs_opendir ::
  "'s platform \<Rightarrow> option_list \<Rightarrow> string \<Rightarrow> fuse_file_info \<Rightarrow> 's world \<Rightarrow> int \<times> 's world" where
  "dfs_opendir P options path file_info w =
     (if \<not> dfs_is_root path \<and> \<not> dfs_traversals_allowed options then (- EACCES, w)
      else
       (case try_attach P options ''dfs_opendir'' w of
          Inl r \<Rightarrow> r
        | Inr w1 \<Rightarrow>
       (case try_encode P options ''dfs_opendir'' ''path'' path w1 of
          Inl r \<Rightarrow> r
        | Inr (java_path, w2) \<Rightarrow>
       (case try_call_boolean P options ''dfs_opendir'' ''directory'' ''([B)Z''
               [JByteArray java_path] w2 of
          Inl r \<Rightarrow> r
        | Inr (directory, w3) \<Rightarrow>
            (let w4 = java_detach P w3 in
             if \<not> directory then (- ENOTDIR, w4)
             else if \<not> dfs_listing_allowed options then (- EACCES, w4)
             else (SUCCESS, w4))))))"

text \<open>
  The name that starts at an offset of the child list, as \<^verbatim>\<open>strlen\<close> and \<^verbatim>\<open>fill\<close> read it: the
  bytes up to the next zero byte. When no zero byte follows in the list, the code reads on
  past the end of the block it has allocated, which is undefined; the model stops at the
  end of the list there.
\<close>

definition c_string_at :: "string \<Rightarrow> nat \<Rightarrow> string" where
  "c_string_at children list_offset = takeWhile (\<lambda>c. c \<noteq> CHR 0x00) (drop list_offset children)"

text \<open>
  The loop of \<^verbatim>\<open>dfs_readdir\<close>. \<open>fill\<close> is the callback of the FUSE library: from the buffer it
  fills and a name it gives its result and the buffer.
\<close>

function fill_children :: "('b \<Rightarrow> string \<Rightarrow> int \<times> 'b) \<Rightarrow> 'b \<Rightarrow> string \<Rightarrow> nat \<Rightarrow> 'b" where
  "fill_children fill buffer children list_offset =
     (if list_offset < length children
      then (let filled = fill buffer (c_string_at children list_offset) in
            if fst filled = 1 then snd filled
            else fill_children fill (snd filled) children
                   (list_offset + length (c_string_at children list_offset) + 1))
      else buffer)"
  by pat_completeness auto
termination
  by (relation "measure (\<lambda>(fill, buffer, children, list_offset). length children - list_offset)")
    auto

definition dfs_readdir ::
  "'s platform \<Rightarrow> option_list \<Rightarrow> string \<Rightarrow> 'b \<Rightarrow> ('b \<Rightarrow> string \<Rightarrow> int \<times> 'b) \<Rightarrow> int
     \<Rightarrow> fuse_file_info \<Rightarrow> 's world \<Rightarrow> int \<times> 'b \<times> 's world" where
  "dfs_readdir P options path buffer fill offset file_info w =
     (case try_attach P options ''dfs_readdir'' w of
        Inl (r, w1) \<Rightarrow> (r, buffer, w1)
      | Inr w1 \<Rightarrow>
     (case try_encode P options ''dfs_readdir'' ''path'' path w1 of
        Inl (r, w2) \<Rightarrow> (r, buffer, w2)
      | Inr (java_path, w2) \<Rightarrow>
     (case try_call_object P options ''dfs_readdir'' ''list'' ''([B)[B''
             [JByteArray java_path] w2 of
        Inl (r, w3) \<Rightarrow> (r, buffer, w3)
      | Inr (encoded_children, w3) \<Rightarrow>
         (case java_decode_new P encoded_children w3 of
            (None, w4) \<Rightarrow>
              (case log_error_detach_and_return P options ''dfs_readdir'' ''EIO'' EIO
                      (CANNOT_DECODE ''encoded_children'') w4 of
                 (r, w5) \<Rightarrow> (r, buffer, w5))
          | (Some children, w4) \<Rightarrow>
              (case detach_and_return P SUCCESS w4 of
                 (r, w5) \<Rightarrow> (r, fill_children fill buffer children 0, w5))))))"

definition dfs_access ::
  "'s platform \<Rightarrow> option_list \<Rightarrow> string \<Rightarrow> c_int \<Rightarrow> 's world \<Rightarrow> int \<times> 's world" where
  "dfs_access P options path mode w =
     (if dfs_is_root path then (dfs_may_access (directory_mode options) mode, w)
      else if \<not> dfs_traversals_allowed options then (- EACCES, w)
      else
       (case try_attach P options ''dfs_access'' w of
          Inl r \<Rightarrow> r
        | Inr w1 \<Rightarrow>
       (case try_encode P options ''dfs_access'' ''path'' path w1 of
          Inl r \<Rightarrow> r
        | Inr (java_path, w2) \<Rightarrow>
       (case try_call_boolean P options ''dfs_access'' ''directory'' ''([B)Z''
               [JByteArray java_path] w2 of
          Inl r \<Rightarrow> r
        | Inr (directory, w3) \<Rightarrow>
            (let w4 = java_detach P w3 in
             if directory then (dfs_may_access (directory_mode options) mode, w4)
             else (dfs_may_access (file_mode options) mode, w4))))))"

subsection \<open>Initialization and cleanup\<close>

text \<open>\<^verbatim>\<open>dfs_init\<close> returns \<^verbatim>\<open>NULL\<close> on every path; the model gives the state it leaves.\<close>

definition dfs_init :: "'s platform \<Rightarrow> option_list \<Rightarrow> 's world \<Rightarrow> 's world" where
  "dfs_init P options w =
     (case log_initialize P options w of
        (logging, w1) \<Rightarrow>
          if \<not> logging then w1
          else
     (case java_initialize P w1 of
        (started, w2) \<Rightarrow>
          if \<not> started then log_write P options ''dfs_init'' CANNOT_INITVM w2
          else
     (case java_attach P w2 of
        (ok, w3) \<Rightarrow>
          if \<not> ok then log_write P options ''dfs_init'' CANNOT_ATTACH w3
          else
     (case java_load_classes P w3 of
        (Some exception, w4) \<Rightarrow>
          log_and_detach P options ''dfs_init'' CANNOT_LOAD
            (log_exception_real P options exception True w4)
      | (None, w4) \<Rightarrow>
     (case java_encode P (hostname options) w4 of
        (None, w5) \<Rightarrow> log_and_detach P options ''dfs_init'' (CANNOT_ENCODE ''hostname'') w5
      | (Some java_hostname, w5) \<Rightarrow>
     (case java_call_void P ''initialize'' ''([B)V'' [JByteArray java_hostname] w5 of
        (out, w6) \<Rightarrow>
          (case call_exception out of
             Some exception \<Rightarrow>
               log_and_detach P options ''dfs_init'' CANNOT_INITFS
                 (log_exception_real P options exception True w6)
           | None \<Rightarrow>
               if \<not> call_success out
               then log_and_detach P options ''dfs_init'' (CANNOT_CALL ''initialize'') w6
               else java_detach P w6)))))))"

definition dfs_destroy :: "'s platform \<Rightarrow> 's world \<Rightarrow> 's world" where
  "dfs_destroy P w = java_destroy P w"

subsection \<open>The operations table\<close>

text \<open>
  A call of the FUSE library through the table \<^verbatim>\<open>set_operations\<close> fills: one constructor for
  each member that returns a POSIX result, with the arguments of the call. \<^verbatim>\<open>unlink\<close> and
  \<^verbatim>\<open>rmdir\<close> both point to \<^verbatim>\<open>dfs_delete\<close>.
\<close>

datatype 'b request =
    Getattr string string
  | Mknod string mode_t nat
  | Mkdir string mode_t
  | Unlink string
  | Rmdir string
  | Truncate string int
  | Open string fuse_file_info
  | Read string buffer nat off_t fuse_file_info
  | Write string buffer nat off_t fuse_file_info
  | Statfs string statvfs
  | Flush string fuse_file_info
  | Release string fuse_file_info
  | Fsync string c_int fuse_file_info
  | Opendir string fuse_file_info
  | Readdir string 'b "'b \<Rightarrow> string \<Rightarrow> int \<times> 'b" int fuse_file_info
  | Releasedir string fuse_file_info
  | Fsyncdir string c_int fuse_file_info
  | Access string c_int

text \<open>The result code of a call and the state it leaves.\<close>

fun handle :: "'s platform \<Rightarrow> option_list \<Rightarrow> stat_layout \<Rightarrow> 'b request \<Rightarrow> 's world \<Rightarrow> int \<times> 's world" where
  "handle P options abi (Getattr path status) w =
     (case dfs_getattr P options abi path status w of (r, out, w') \<Rightarrow> (r, w'))"
| "handle P options abi (Mknod path mode device) w = dfs_mknod P options path mode device w"
| "handle P options abi (Mkdir path mode) w = dfs_mkdir P options path mode w"
| "handle P options abi (Unlink path) w = dfs_delete P options path w"
| "handle P options abi (Rmdir path) w = dfs_delete P options path w"
| "handle P options abi (Truncate path new_size) w = dfs_truncate P options path new_size w"
| "handle P options abi (Open path file_info) w =
     (case dfs_open P options path file_info w of (r, out, w') \<Rightarrow> (r, w'))"
| "handle P options abi (Read path buffer len offset file_info) w =
     (case dfs_read P options path buffer len offset file_info w of (r, out, w') \<Rightarrow> (r, w'))"
| "handle P options abi (Write path buffer len offset file_info) w =
     dfs_write P options path buffer len offset file_info w"
| "handle P options abi (Statfs path statistics) w = (fst (dfs_statfs path statistics), w)"
| "handle P options abi (Flush path file_info) w = (dfs_flush path file_info, w)"
| "handle P options abi (Release path file_info) w = (dfs_release path file_info, w)"
| "handle P options abi (Fsync path datasync file_info) w =
     (dfs_fsync path datasync file_info, w)"
| "handle P options abi (Opendir path file_info) w = dfs_opendir P options path file_info w"
| "handle P options abi (Readdir path buffer fill offset file_info) w =
     (case dfs_readdir P options path buffer fill offset file_info w of
        (r, out, w') \<Rightarrow> (r, w'))"
| "handle P options abi (Releasedir path file_info) w = (dfs_releasedir path file_info, w)"
| "handle P options abi (Fsyncdir path datasync file_info) w =
     (dfs_fsyncdir path datasync file_info, w)"
| "handle P options abi (Access path mode) w = dfs_access P options path mode w"

text \<open>A sequence of calls, one after the other: the result codes and the final state.\<close>

fun handle_all ::
  "'s platform \<Rightarrow> option_list \<Rightarrow> stat_layout \<Rightarrow> 'b request list \<Rightarrow> 's world
     \<Rightarrow> int list \<times> 's world" where
  "handle_all P options abi [] w = ([], w)"
| "handle_all P options abi (request # requests) w =
     (case handle P options abi request w of
        (r, w1) \<Rightarrow>
          (case handle_all P options abi requests w1 of (rs, w2) \<Rightarrow> (r # rs, w2)))"

section \<open>What a call does to the thread\<close>

text \<open>
  Relations between the state before and the state after a step: the attachment of the
  thread and both counters are as before; the thread has been attached once more; the
  thread has been detached once more.
\<close>

definition same_thread :: "'s world \<Rightarrow> 's world \<Rightarrow> bool" where
  "same_thread w w' =
     (attached w' = attached w \<and> attach_count w' = attach_count w
      \<and> detach_count w' = detach_count w)"

definition attached_once :: "'s world \<Rightarrow> 's world \<Rightarrow> bool" where
  "attached_once w w' =
     (attached w' \<and> attach_count w' = Suc (attach_count w) \<and> detach_count w' = detach_count w)"

definition detached_once :: "'s world \<Rightarrow> 's world \<Rightarrow> bool" where
  "detached_once w w' =
     (\<not> attached w' \<and> attach_count w' = attach_count w
      \<and> detach_count w' = Suc (detach_count w))"

text \<open>
  A call is balanced when it ends with the thread detached and has called \<^verbatim>\<open>java_detach\<close>
  as often as it has attached the thread.
\<close>

definition balanced :: "'s world \<Rightarrow> 's world \<Rightarrow> bool" where
  "balanced w w' =
     (\<not> attached w' \<and> attach_count w \<le> attach_count w' \<and> detach_count w \<le> detach_count w'
      \<and> detach_count w' - detach_count w = attach_count w' - attach_count w)"

text \<open>The results a remote fault or a failed call can give.\<close>

definition fault_code :: "int \<Rightarrow> bool" where
  "fault_code r = (r = - EIO \<or> r = - EINVAL \<or> r = - ENOENT)"

section \<open>Results that are not logged\<close>

text \<open>
  The results of a call that come from a check of the driver itself or from the answer of
  a remote call that returned: \<open>-EACCES\<close>, \<open>-EEXIST\<close>, \<open>-EISDIR\<close> and \<open>-ENOTDIR\<close> from any
  operation, \<open>-EPERM\<close> from unlink or rmdir of the root, \<open>-ENOENT\<close> from open of the root.
\<close>

fun deletes_root :: "'b request \<Rightarrow> bool" where
  "deletes_root (Unlink path) = (path = ''/'')"
| "deletes_root (Rmdir path) = (path = ''/'')"
| "deletes_root request = False"

fun opens_root :: "'b request \<Rightarrow> bool" where
  "opens_root (Open path file_info) = (path = ''/'')"
| "opens_root request = False"

definition quiet_result :: "'b request \<Rightarrow> int \<Rightarrow> bool" where
  "quiet_result request r =
     (r = - EACCES \<or> r = - EEXIST \<or> r = - EISDIR \<or> r = - ENOTDIR
      \<or> (r = - EPERM \<and> deletes_root request) \<or> (r = - ENOENT \<and> opens_root request))"

section \<open>Concrete instances\<close>

text \<open>
  A platform without state on which every primitive succeeds: the methods that return a
  boolean return \<open>answer\<close>, \<^verbatim>\<open>size\<close> returns 10, the methods that return an array return
  the three bytes \<^verbatim>\<open>a\<close>, zero, \<^verbatim>\<open>b\<close>, and every call stores the exception \<open>thrown\<close> (none
  when it is \<open>None\<close>). Describing an exception appends its text and a newline.
\<close>

definition demo_platform :: "bool \<Rightarrow> jthrowable option \<Rightarrow> unit platform" where
  "demo_platform answer thrown =
     \<lparr>AttachCurrentThread = (\<lambda>s. (True, s)),
      DetachCurrentThread = (\<lambda>s. s),
      GetEnv = (\<lambda>s. True),
      FindClass = (\<lambda>s name. True),
      encode_ok = (\<lambda>s bytes. (True, s)),
      decode_ok = (\<lambda>s bytes. (True, s)),
      call_void = (\<lambda>s method signature args.
        (\<lparr>call_success = True, call_exception = thrown, call_result = ()\<rparr>, s)),
      call_boolean = (\<lambda>s method signature args.
        (\<lparr>call_success = True, call_exception = thrown, call_result = answer\<rparr>, s)),
      call_long = (\<lambda>s method signature args.
        (\<lparr>call_success = True, call_exception = thrown, call_result = 10\<rparr>, s)),
      call_object = (\<lambda>s method signature args.
        (\<lparr>call_success = True, call_exception = thrown,
          call_result = [CHR ''a'', CHR 0x00, CHR ''b'']\<rparr>, s)),
      describe_exception = (\<lambda>s exception filename stack_trace.
        (description exception @ newline, s)),
      load_classes = (\<lambda>s. (None, s)),
      GetDefaultJavaVMInitArgs = (\<lambda>s. (True, s)),
      CreateJavaVM = (\<lambda>s. (True, s)),
      DestroyJavaVM = (\<lambda>s. s),
      pthread_mutex_init = (\<lambda>s. (True, s)),
      pthread_mutex_lock = (\<lambda>s. (True, s)),
      fopen_ok = (\<lambda>s name mode. (True, s))\<rparr>"

text \<open>The state before any call: the thread detached, nothing counted, an empty log.\<close>

definition world_start :: "unit world" where
  "world_start =
     \<lparr>outside = (), attached = False, attach_count = 0, detach_count = 0,
      remote_calls = [], log_contents = []\<rparr>"

text \<open>Options with given modes, without and with a log file.\<close>

definition options_with :: "mode_t \<Rightarrow> mode_t \<Rightarrow> option_list" where
  "options_with fm dm =
     \<lparr>hostname = ''127.0.0.1'', file_mode = fm, directory_mode = dm, log_file = None\<rparr>"

definition options_logging :: "mode_t \<Rightarrow> mode_t \<Rightarrow> option_list" where
  "options_logging fm dm =
     \<lparr>hostname = ''127.0.0.1'', file_mode = fm, directory_mode = dm,
      log_file = Some ''dfs.log''\<rparr>"

text \<open>
  \<^verbatim>\<open>struct stat\<close> of Linux on x86-64: 144 bytes, \<^verbatim>\<open>st_nlink\<close> at 16 (8 bytes), \<^verbatim>\<open>st_mode\<close> at
  24 (4 bytes), \<^verbatim>\<open>st_size\<close> at 48 (8 bytes); a pointer has 8 bytes.
\<close>

definition linux_x86_64 :: stat_layout where
  "linux_x86_64 =
     \<lparr>sizeof_pointer = 8, sizeof_stat = 144, st_mode_field = (24, 4),
      st_nlink_field = (16, 8), st_size_field = (48, 8)\<rparr>"

definition file_info_flags :: "c_int \<Rightarrow> fuse_file_info" where
  "file_info_flags f = \<lparr>flags = f, fh = 0\<rparr>"

text \<open>A \<^verbatim>\<open>fill\<close> that appends the name to the list of names and never reports a full buffer.\<close>

definition fill_append :: "string list \<Rightarrow> string \<Rightarrow> int \<times> string list" where
  "fill_append names name = (0, names @ [name])"

text \<open>
  A parser that stores \<^verbatim>\<open>--file-mode=100644\<close> and \<^verbatim>\<open>--directory-mode=40755\<close> (both with
  an object type bit): the configuration ends with 0644 and 0755.
\<close>

definition parser_demo :: fuse_opt_parse_t where
  "parser_demo argv options = (0, [], options\<lparr>file_mode := 33188, directory_mode := 16877\<rparr>)"

text \<open>
  A missing file (\<^verbatim>\<open>FileNotFoundException\<close>, below \<^verbatim>\<open>IOException\<close>), a
  \<^verbatim>\<open>NumberFormatException\<close> (a subclass of \<^verbatim>\<open>IllegalArgumentException\<close>), and a fault of
  a class outside the table.
\<close>

definition file_not_found :: jthrowable where
  "file_not_found =
     Throwable [''java/io/FileNotFoundException'', ''java/io/IOException'',
       ''java/lang/Exception'', ''java/lang/Throwable'', ''java/lang/Object'']
       ''java.io.FileNotFoundException''"

definition number_format :: jthrowable where
  "number_format =
     Throwable [''java/lang/NumberFormatException'', ''java/lang/IllegalArgumentException'',
       ''java/lang/RuntimeException'', ''java/lang/Exception'', ''java/lang/Throwable'',
       ''java/lang/Object'']
       ''java.lang.NumberFormatException''"

definition remote_failure :: jthrowable where
  "remote_failure =
     Throwable [''rmi/RMIException'', ''java/lang/Exception'', ''java/lang/Throwable'',
       ''java/lang/Object'']
       ''rmi.RMIException''"

section \<open>Mode sanitization\<close>

lemmas errno_defs =
  SUCCESS_def EPERM_def ENOENT_def EIO_def EACCES_def EEXIST_def ENOTDIR_def EISDIR_def
  EINVAL_def EFBIG_def ENOTSUP_def ECANCELED_def

lemma mask_no_type_bits: "(m AND PERMISSION_MASK) AND S_IFMT = (0 :: mode_t)"
proof -
  have "PERMISSION_MASK AND S_IFMT = (0 :: mode_t)"
    by (simp add: PERMISSION_MASK_def S_IFMT_def)
  then show ?thesis
    by (simp add: and.assoc)
qed

text \<open>
  Claim C9. Whatever mode values the option parser stored from the command line, after
  \<^verbatim>\<open>parse_options\<close> the configured file mode is that value masked with 0777 and the
  configured directory mode is that value masked with 0777, and neither has a bit of the
  object type field \<^verbatim>\<open>S_IFMT\<close> set.
\<close>

theorem parse_options_masks_modes:
  assumes "fuse_opt_parse argv options = (rc, argv', parsed)"
    and "file_mode parsed = M" and "directory_mode parsed = D"
    and "parse_options fuse_opt_parse argv options = (ok, rest, configured)"
  shows "file_mode configured = M AND 511 \<and> directory_mode configured = D AND 511
       \<and> file_mode configured AND S_IFMT = 0 \<and> directory_mode configured AND S_IFMT = 0"
proof -
  have c: "configured = parsed\<lparr>file_mode := M AND PERMISSION_MASK,
                                 directory_mode := D AND PERMISSION_MASK\<rparr>"
    using assms by (simp add: parse_options_def)
  show ?thesis
    unfolding c using mask_no_type_bits [of M] mask_no_type_bits [of D]
    by (simp add: PERMISSION_MASK_def)
qed

text \<open>
  With \<^verbatim>\<open>parser_demo\<close>, which stores the modes 0100644 and 040755, the configuration ends
  with 0644 and 0755.
\<close>

theorem parse_options_masks_modes_witness:
  "file_mode (snd (snd (parse_options parser_demo [''--file-mode=100644''] options_default))) = 420
   \<and> directory_mode (snd (snd (parse_options parser_demo [''--file-mode=100644''] options_default))) = 493"
  using parse_options_masks_modes [of parser_demo "[''--file-mode=100644'']" options_default
      0 "[]" "options_default\<lparr>file_mode := 33188, directory_mode := 16877\<rparr>" 33188 16877
      "fst (parse_options parser_demo [''--file-mode=100644''] options_default)"
      "fst (snd (parse_options parser_demo [''--file-mode=100644''] options_default))"
      "snd (snd (parse_options parser_demo [''--file-mode=100644''] options_default))"]
  by (simp add: parser_demo_def)

section \<open>Collected definitions\<close>

lemmas macro_defs =
  try_attach_def try_encode_def try_call_outcome_def try_call_boolean_def try_call_long_def
  try_call_object_def try_void_call_def log_error_and_return_def
  log_error_detach_and_return_def log_exception_detach_and_return_def detach_and_return_def
  java_attach_def java_detach_def java_encode_def java_decode_def java_decode_new_def
  java_call_void_def java_call_boolean_def java_call_long_def java_call_object_def
  record_call_def log_write_real_def log_exception_real_def java_describe_exception_def
  java_error_code_def

lemmas demo_defs =
  demo_platform_def options_with_def options_logging_def world_start_def file_info_flags_def
  INT_MAX_def LLONG_MAX_def size_t_to_int_def

section \<open>Root protection\<close>

text \<open>
  Claim C3. For the root path \<^verbatim>\<open>/\<close>, mknod and mkdir return \<open>-EEXIST\<close>, unlink and rmdir
  return \<open>-EPERM\<close>, truncate to size 0 returns \<open>-EISDIR\<close> and open returns \<open>-ENOENT\<close>, for
  every configuration and every platform, and the state is left as it was: nothing
  outside the driver is asked.
\<close>

theorem root_path_results:
  "dfs_mknod P options ''/'' mode device w = (- EEXIST, w)
   \<and> dfs_mkdir P options ''/'' mode w = (- EEXIST, w)
   \<and> dfs_delete P options ''/'' w = (- EPERM, w)
   \<and> handle P options abi (Unlink ''/'') w = (- EPERM, w)
   \<and> handle P options abi (Rmdir ''/'') w = (- EPERM, w)
   \<and> dfs_truncate P options ''/'' 0 w = (- EISDIR, w)
   \<and> dfs_open P options ''/'' file_info w = (- ENOENT, file_info, w)"
  by (simp add: dfs_mknod_def dfs_mkdir_def dfs_delete_def dfs_truncate_def dfs_open_def
      dfs_is_root_def)

section \<open>The traversal gate\<close>

lemma not_traversable:
  "directory_mode options AND S_IXUSR = 0 \<Longrightarrow> \<not> dfs_traversals_allowed options"
  by (simp add: dfs_traversals_allowed_def dfs_may_access_def X_OK_def R_OK_def W_OK_def
      errno_defs)

text \<open>
  Claim C1, as the code has it. When the directory mode lacks the owner execute bit, then
  on every path other than the root getattr, mknod, mkdir, unlink and rmdir (both
  \<^verbatim>\<open>dfs_delete\<close>), truncate to size 0, open, opendir and access return \<open>-EACCES\<close> and leave
  the state as it was, so no remote call is made. (A truncate to another size returns
  \<open>-ENOTSUP\<close> before the path is looked at; read, write and readdir make no traversal
  check.)
\<close>

theorem traversal_gate:
  assumes "directory_mode options AND S_IXUSR = 0" and "path \<noteq> ''/''"
  shows "dfs_getattr P options abi path status w = (- EACCES, status, w)
   \<and> dfs_mknod P options path mode device w = (- EACCES, w)
   \<and> dfs_mkdir P options path mode w = (- EACCES, w)
   \<and> dfs_delete P options path w = (- EACCES, w)
   \<and> dfs_truncate P options path 0 w = (- EACCES, w)
   \<and> dfs_open P options path file_info w = (- EACCES, file_info, w)
   \<and> dfs_opendir P options path file_info w = (- EACCES, w)
   \<and> dfs_access P options path request w = (- EACCES, w)"
  using assms not_traversable [of options]
  by (simp add: dfs_getattr_def dfs_mknod_def dfs_mkdir_def dfs_delete_def dfs_truncate_def
      dfs_open_def dfs_opendir_def dfs_access_def dfs_is_root_def)

text \<open>The gate at directory mode 0600 and the path \<^verbatim>\<open>/a\<close>.\<close>

theorem traversal_gate_witness:
  "dfs_getattr (demo_platform True None) (options_with 420 384) linux_x86_64 ''/a'' [] world_start
     = (- 13, [], world_start)
   \<and> dfs_mknod (demo_platform True None) (options_with 420 384) ''/a'' 0 0 world_start
     = (- 13, world_start)
   \<and> dfs_mkdir (demo_platform True None) (options_with 420 384) ''/a'' 0 world_start
     = (- 13, world_start)
   \<and> dfs_delete (demo_platform True None) (options_with 420 384) ''/a'' world_start
     = (- 13, world_start)
   \<and> dfs_truncate (demo_platform True None) (options_with 420 384) ''/a'' 0 world_start
     = (- 13, world_start)
   \<and> dfs_open (demo_platform True None) (options_with 420 384) ''/a'' (file_info_flags 0)
        world_start = (- 13, file_info_flags 0, world_start)
   \<and> dfs_opendir (demo_platform True None) (options_with 420 384) ''/a'' (file_info_flags 0)
        world_start = (- 13, world_start)
   \<and> dfs_access (demo_platform True None) (options_with 420 384) ''/a'' 4 world_start
     = (- 13, world_start)"
  using traversal_gate [where options = "options_with 420 384" and path = "''/a''"
      and P = "demo_platform True None" and abi = linux_x86_64 and status = "[]"
      and w = world_start and mode = 0 and device = 0 and file_info = "file_info_flags 0"
      and request = 4]
  by (simp add: options_with_def S_IXUSR_def EACCES_def)

text \<open>
  Claim C1 as stated fails for read, write and readdir: with directory mode 0600 and the
  path \<^verbatim>\<open>/a\<close> each of them makes its remote call and returns what the call gives (3 bytes
  read, 4 bytes written, the listing done), not \<open>-EACCES\<close>.
\<close>

theorem traversal_gate_counterexample:
  "directory_mode (options_with 420 384) AND S_IXUSR = 0
   \<and> fst (dfs_read (demo_platform True None) (options_with 420 384) ''/a'' (\<lambda>i. CHR ''x'') 4 0
          (file_info_flags 0) world_start) = 3
   \<and> map fst (remote_calls (snd (snd (dfs_read (demo_platform True None) (options_with 420 384)
          ''/a'' (\<lambda>i. CHR ''x'') 4 0 (file_info_flags 0) world_start)))) = [''read'']
   \<and> fst (dfs_write (demo_platform True None) (options_with 420 384) ''/a'' (\<lambda>i. CHR ''x'') 4 0
          (file_info_flags 0) world_start) = 4
   \<and> map fst (remote_calls (snd (dfs_write (demo_platform True None) (options_with 420 384)
          ''/a'' (\<lambda>i. CHR ''x'') 4 0 (file_info_flags 0) world_start))) = [''write'']
   \<and> fst (dfs_readdir (demo_platform True None) (options_with 420 384) ''/a'' [] fill_append 0
          (file_info_flags 0) world_start) = 0
   \<and> map fst (remote_calls (snd (snd (dfs_readdir (demo_platform True None)
          (options_with 420 384) ''/a'' [] fill_append 0 (file_info_flags 0) world_start))))
       = [''list'']"
  by (simp add: dfs_read_def dfs_write_def dfs_readdir_def macro_defs demo_defs S_IXUSR_def
      errno_defs)

section \<open>Opening a file that may not be read\<close>

lemma no_read_bit:
  "file_mode options AND S_IRUSR = 0 \<Longrightarrow> dfs_may_access (file_mode options) R_OK \<noteq> SUCCESS"
  by (simp add: dfs_may_access_def R_OK_def errno_defs)

text \<open>
  Claim C10. When the file mode lacks the owner read bit, an open of a path other than the
  root whose file exists (the thread attaches, the path is encoded and the remote
  \<^verbatim>\<open>size\<close> call returns a size) returns \<open>-EACCES\<close> whatever the flags are, also for flags
  that ask for writing only: \<^verbatim>\<open>O_RDONLY\<close> is zero, so the test
  \<^verbatim>\<open>(flags & O_RDONLY) == O_RDONLY\<close> holds for every flags word.
\<close>

theorem open_needs_read_bit:
  assumes "path \<noteq> ''/''" and "file_mode options AND S_IRUSR = 0"
    and "try_attach P options ''dfs_open'' w = Inr w1"
    and "try_encode P options ''dfs_open'' ''path'' path w1 = Inr (java_path, w2)"
    and "try_call_long P options ''dfs_open'' ''size'' ''([B)J'' [JByteArray java_path] w2
           = Inr (sz, w3)"
  shows "fst (dfs_open P options path file_info w) = - EACCES"
  using assms no_read_bit [of options]
  by (simp add: dfs_open_def dfs_is_root_def O_RDONLY_def Let_def)

text \<open>An open for writing only (\<^verbatim>\<open>O_WRONLY\<close>) with file mode 0200 and directory mode 0755.\<close>

theorem open_needs_read_bit_witness:
  "fst (dfs_open (demo_platform True None) (options_with 128 493) ''/a'' (file_info_flags 1)
          world_start) = - 13"
  using open_needs_read_bit [where path = "''/a''" and options = "options_with 128 493"
      and P = "demo_platform True None" and w = world_start and file_info = "file_info_flags 1"
      and ?w1.0 = "world_start\<lparr>attached := True, attach_count := 1\<rparr>"
      and java_path = "''/a''" and ?w2.0 = "world_start\<lparr>attached := True, attach_count := 1\<rparr>"
      and sz = 10
      and ?w3.0 = "world_start\<lparr>attached := True, attach_count := 1,
                 remote_calls := [(''size'', ''([B)J'', [JByteArray ''/a''])]\<rparr>"]
  by (simp add: macro_defs demo_defs S_IRUSR_def EACCES_def)

section \<open>Fault classification\<close>

lemma error_code_table:
  assumes "\<forall>entry \<in> set exceptions. FindClass P s (fst entry)"
  shows "error_code_from P s exception exceptions =
     (if IsInstanceOf exception ''java/lang/IllegalArgumentException'' then EINVAL
      else if IsInstanceOf exception ''java/lang/IndexOutOfBoundsException'' then EINVAL
      else if IsInstanceOf exception ''java/io/FileNotFoundException'' then ENOENT
      else EIO)"
  using assms by (simp add: exceptions_def DEFAULT_ERROR_def)

text \<open>
  Claim C4. When the JNI environment is there and the three classes of the table are
  found, the error code of a remote fault is \<open>EINVAL\<close> for an instance of
  \<^verbatim>\<open>java/lang/IllegalArgumentException\<close>, else \<open>EINVAL\<close> for an instance of
  \<^verbatim>\<open>java/lang/IndexOutOfBoundsException\<close>, else \<open>ENOENT\<close> for an instance of
  \<^verbatim>\<open>java/io/FileNotFoundException\<close>, else \<open>EIO\<close>: the table is matched in its order and
  the first match decides. A call that stored an exception makes the handler return the
  negated code of that exception, and a call that failed without an exception (a
  transport error) makes it return \<open>-EIO\<close>.
\<close>

theorem fault_classification:
  assumes "GetEnv P (outside w)"
    and "\<forall>entry \<in> set exceptions. FindClass P (outside w) (fst entry)"
  shows "java_error_code P w exception =
     (if IsInstanceOf exception ''java/lang/IllegalArgumentException'' then EINVAL
      else if IsInstanceOf exception ''java/lang/IndexOutOfBoundsException'' then EINVAL
      else if IsInstanceOf exception ''java/io/FileNotFoundException'' then ENOENT
      else EIO)
   \<and> isl (try_call_outcome P options func called
            (\<lparr>call_success = flag, call_exception = Some exception, call_result = v\<rparr>, w))
   \<and> fst (projl (try_call_outcome P options func called
            (\<lparr>call_success = flag, call_exception = Some exception, call_result = v\<rparr>, w)))
       = - java_error_code P w exception
   \<and> isl (try_call_outcome P options func called
            (\<lparr>call_success = False, call_exception = None, call_result = v\<rparr>, w))
   \<and> fst (projl (try_call_outcome P options func called
            (\<lparr>call_success = False, call_exception = None, call_result = v\<rparr>, w))) = - EIO"
  using assms error_code_table [of P "outside w" exception]
  by (simp add: java_error_code_def try_call_outcome_def log_exception_detach_and_return_def
      log_error_detach_and_return_def Let_def)

text \<open>The three exceptions of the concrete instances.\<close>

theorem fault_classification_witness:
  "java_error_code (demo_platform True None) world_start file_not_found = 2
   \<and> java_error_code (demo_platform True None) world_start number_format = 22
   \<and> java_error_code (demo_platform True None) world_start remote_failure = 5
   \<and> fst (projl (try_call_outcome (demo_platform True None) options_default ''dfs_getattr''
        ''directory''
        (\<lparr>call_success = True, call_exception = Some file_not_found, call_result = False\<rparr>,
         world_start))) = - 2
   \<and> fst (projl (try_call_outcome (demo_platform True None) options_default ''dfs_getattr''
        ''directory''
        (\<lparr>call_success = False, call_exception = None, call_result = False\<rparr>,
         world_start))) = - 5"
  using fault_classification [where P = "demo_platform True None" and w = world_start
      and exception = file_not_found and options = options_default and func = "''dfs_getattr''"
      and called = "''directory''" and flag = True and v = False]
    fault_classification [where P = "demo_platform True None" and w = world_start
      and exception = number_format and options = options_default and func = "''dfs_getattr''"
      and called = "''directory''" and flag = True and v = False]
    fault_classification [where P = "demo_platform True None" and w = world_start
      and exception = remote_failure and options = options_default and func = "''dfs_getattr''"
      and called = "''directory''" and flag = True and v = False]
  by (simp add: demo_platform_def world_start_def exceptions_def file_not_found_def
      number_format_def remote_failure_def IsInstanceOf_def errno_defs)

section \<open>The attributes getattr leaves\<close>

lemma length_le_bytes: "length (le_bytes n v) = n"
  by (induction n arbitrary: v) auto

lemma load_store_before:
  assumes "fst f + snd f \<le> fst g" and "fst f \<le> length mem"
  shows "load_field (store_field mem f v) g = load_field mem g"
proof -
  have "drop (fst g) (store_field mem f v) = drop (fst g) mem"
    using assms by (simp add: store_field_def length_le_bytes min_def)
  then show ?thesis by (simp add: load_field_def)
qed

lemma length_store_field:
  "fst f + snd f \<le> length mem \<Longrightarrow> length (store_field mem f v) = length mem"
  by (simp add: store_field_def length_le_bytes)

lemma load_memset_before:
  "n \<le> fst g \<Longrightarrow> load_field (memset_bytes mem c n) g = load_field mem g"
  by (simp add: load_field_def memset_bytes_def)

lemma length_memset_bytes: "n \<le> length mem \<Longrightarrow> length (memset_bytes mem c n) = length mem"
  by (simp add: memset_bytes_def)

lemma le_value_replicate_ff: "le_value (replicate n (CHR 0xFF)) = 256 ^ n - 1"
proof (induction n)
  case 0
  then show ?case by simp
next
  case (Suc n)
  have "(1::nat) \<le> 256 ^ n" by simp
  then have "255 + 256 * (256 ^ n - 1) = 256 * 256 ^ n - (1::nat)"
    by (simp add: algebra_simps)
  with Suc show ?case by simp
qed

lemma getattr_directory_status:
  assumes "try_attach P options ''dfs_getattr'' w = Inr w1"
    and "try_encode P options ''dfs_getattr'' ''path'' path w1 = Inr (java_path, w2)"
    and "try_call_boolean P options ''dfs_getattr'' ''directory'' ''([B)Z''
           [JByteArray java_path] w2 = Inr (True, w3)"
    and "dfs_is_root path \<or> dfs_traversals_allowed options"
  shows "dfs_getattr P options abi path status w =
     (0, store_field
           (store_field (memset_bytes status (CHR 0x00) (sizeof_pointer abi)) (st_mode_field abi)
              (unat (S_IFDIR OR directory_mode options)))
           (st_nlink_field abi) 1,
      java_detach P w3)"
  using assms by (auto simp: dfs_getattr_def detach_and_return_def SUCCESS_def)

text \<open>
  With the layout of Linux on x86-64, a getattr of a directory that returns 0 leaves the
  bytes of \<^verbatim>\<open>st_size\<close> as the caller passed them: \<^verbatim>\<open>memset(status, 0, sizeof(status))\<close> clears
  the first 8 bytes only (the size of the pointer), and \<^verbatim>\<open>st_size\<close> is not assigned for a
  directory.
\<close>

lemma getattr_directory_keeps_size_bytes:
  assumes "try_attach P options ''dfs_getattr'' w = Inr w1"
    and "try_encode P options ''dfs_getattr'' ''path'' path w1 = Inr (java_path, w2)"
    and "try_call_boolean P options ''dfs_getattr'' ''directory'' ''([B)Z''
           [JByteArray java_path] w2 = Inr (True, w3)"
    and "dfs_is_root path \<or> dfs_traversals_allowed options"
    and "length status = sizeof_stat linux_x86_64"
  shows "fst (dfs_getattr P options linux_x86_64 path status w) = 0
     \<and> load_field (fst (snd (dfs_getattr P options linux_x86_64 path status w)))
          (st_size_field linux_x86_64)
        = load_field status (st_size_field linux_x86_64)"
proof -
  let ?m0 = "memset_bytes status (CHR 0x00) 8"
  let ?m1 = "store_field ?m0 (24, 4) (unat (S_IFDIR OR directory_mode options))"
  have l: "length status = 144"
    using assms(5) by (simp add: linux_x86_64_def)
  have l0: "length ?m0 = 144"
    using l by (simp add: length_memset_bytes)
  have l1: "length ?m1 = 144"
    using l0 by (simp add: length_store_field)
  have "load_field (store_field ?m1 (16, 8) 1) (48, 8) = load_field ?m1 (48, 8)"
    using l1 by (simp add: load_store_before)
  also have "\<dots> = load_field ?m0 (48, 8)"
    using l0 by (simp add: load_store_before)
  also have "\<dots> = load_field status (48, 8)"
    by (simp add: load_memset_before)
  finally show ?thesis
    using getattr_directory_status [OF assms(1-4), of linux_x86_64 status]
    by (simp add: linux_x86_64_def)
qed

text \<open>
  Claim C2 on the code: getattr of the directory \<^verbatim>\<open>/d\<close> with a status structure whose bytes
  are all \<^verbatim>\<open>0xFF\<close> returns 0 and reports the size \<open>2^64 - 1\<close>, not 0.
\<close>

theorem getattr_directory_size_not_cleared:
  "fst (dfs_getattr (demo_platform True None) options_default linux_x86_64 ''/d''
          (replicate 144 (CHR 0xFF)) world_start) = 0
   \<and> load_field (fst (snd (dfs_getattr (demo_platform True None) options_default linux_x86_64
          ''/d'' (replicate 144 (CHR 0xFF)) world_start))) (st_size_field linux_x86_64)
       = 18446744073709551615"
proof -
  have "load_field (replicate 144 (CHR 0xFF)) (48, 8) = le_value (replicate 8 (CHR 0xFF))"
    by (simp add: load_field_def)
  also have "\<dots> = 18446744073709551615"
    by (simp only: le_value_replicate_ff) simp
  finally show ?thesis
    using getattr_directory_keeps_size_bytes [where P = "demo_platform True None"
      and options = options_default and w = world_start and path = "''/d''"
      and status = "replicate 144 (CHR 0xFF)" and java_path = "''/d''"
      and ?w1.0 = "world_start\<lparr>attached := True, attach_count := 1\<rparr>"
      and ?w2.0 = "world_start\<lparr>attached := True, attach_count := 1\<rparr>"
      and ?w3.0 = "world_start\<lparr>attached := True, attach_count := 1,
                 remote_calls := [(''directory'', ''([B)Z'', [JByteArray ''/d''])]\<rparr>"]
    by (simp add: macro_defs demo_defs linux_x86_64_def options_default_def
        dfs_traversals_allowed_def dfs_may_access_def X_OK_def R_OK_def W_OK_def S_IXUSR_def
        errno_defs)
qed

section \<open>Effects of the macros\<close>

lemmas thread_defs = same_thread_def attached_once_def detached_once_def

lemma log_write_real_frame:
  "attached (log_write_real P options message w) = attached w"
  "attach_count (log_write_real P options message w) = attach_count w"
  "detach_count (log_write_real P options message w) = detach_count w"
  "remote_calls (log_write_real P options message w) = remote_calls w"
  by (simp_all add: log_write_real_def split: option.splits prod.splits)

lemma log_write_real_silent:
  "log_file options = None \<Longrightarrow> log_write_real P options message w = w"
  by (simp add: log_write_real_def)

lemma log_exception_real_frame:
  "attached (log_exception_real P options exception stack_trace w) = attached w"
  "attach_count (log_exception_real P options exception stack_trace w) = attach_count w"
  "detach_count (log_exception_real P options exception stack_trace w) = detach_count w"
  "remote_calls (log_exception_real P options exception stack_trace w) = remote_calls w"
  by (simp_all add: log_exception_real_def java_describe_exception_def
      split: option.splits prod.splits)

lemma java_detach_effect:
  "\<not> attached (java_detach P w)"
  "attach_count (java_detach P w) = attach_count w"
  "detach_count (java_detach P w) = Suc (detach_count w)"
  "remote_calls (java_detach P w) = remote_calls w"
  "log_contents (java_detach P w) = log_contents w"
  by (simp_all add: java_detach_def)

lemma error_code_from_range:
  "error_code_from P s exception exceptions = EINVAL
   \<or> error_code_from P s exception exceptions = ENOENT
   \<or> error_code_from P s exception exceptions = EIO"
  by (simp add: exceptions_def DEFAULT_ERROR_def)

lemma java_error_code_range: "fault_code (- java_error_code P w exception)"
  using error_code_from_range [of P "outside w" exception]
  by (auto simp: java_error_code_def fault_code_def DEFAULT_ERROR_def)

lemma try_attach_Inl:
  "try_attach P options func w = Inl (r, w') \<Longrightarrow>
     r = - EIO \<and> same_thread w w' \<and> remote_calls w' = remote_calls w"
  by (auto simp: try_attach_def java_attach_def log_error_and_return_def same_thread_def
      log_write_real_frame split: prod.splits if_splits)

lemma try_attach_Inr:
  "try_attach P options func w = Inr w' \<Longrightarrow>
     attached_once w w' \<and> remote_calls w' = remote_calls w \<and> log_contents w' = log_contents w"
  by (auto simp: try_attach_def java_attach_def attached_once_def split: prod.splits if_splits)

lemma try_encode_Inl:
  "try_encode P options func source_name source w = Inl (r, w') \<Longrightarrow>
     r = - EIO \<and> detached_once w w' \<and> remote_calls w' = remote_calls w"
  by (auto simp: try_encode_def java_encode_def log_error_detach_and_return_def
      detached_once_def java_detach_effect log_write_real_frame
      split: prod.splits option.splits if_splits)

lemma try_encode_Inr:
  "try_encode P options func source_name source w = Inr (array, w') \<Longrightarrow>
     array = source \<and> same_thread w w' \<and> remote_calls w' = remote_calls w
     \<and> log_contents w' = log_contents w"
  by (auto simp: try_encode_def java_encode_def same_thread_def
      split: prod.splits option.splits if_splits)

lemma fault_code_EIO: "fault_code (- EIO)"
  by (simp add: fault_code_def)

lemma try_call_outcome_Inl:
  "try_call_outcome P options func called (out, w) = Inl (r, w') \<Longrightarrow>
     fault_code r \<and> detached_once w w' \<and> remote_calls w' = remote_calls w"
  by (auto simp: try_call_outcome_def log_exception_detach_and_return_def
      log_error_detach_and_return_def detached_once_def java_detach_effect
      log_write_real_frame log_exception_real_frame java_error_code_range fault_code_EIO
      Let_def split: option.splits if_splits)

lemma try_call_outcome_Inr:
  "try_call_outcome P options func called (out, w) = Inr (v, w') \<Longrightarrow> w' = w"
  by (auto simp: try_call_outcome_def split: option.splits if_splits)

lemma record_call_effect:
  "attached (record_call called signature args s w) = attached w"
  "attach_count (record_call called signature args s w) = attach_count w"
  "detach_count (record_call called signature args s w) = detach_count w"
  "log_contents (record_call called signature args s w) = log_contents w"
  "remote_calls (record_call called signature args s w)
     = remote_calls w @ [(called, signature, args)]"
  by (simp_all add: record_call_def)

lemma try_call_boolean_Inl:
  "try_call_boolean P options func called signature args w = Inl (r, w') \<Longrightarrow>
     fault_code r \<and> detached_once w w'
     \<and> remote_calls w' = remote_calls w @ [(called, signature, args)]"
  by (auto simp: try_call_boolean_def java_call_boolean_def record_call_effect detached_once_def
      split: prod.splits dest!: try_call_outcome_Inl)

lemma try_call_boolean_Inr:
  "try_call_boolean P options func called signature args w = Inr (v, w') \<Longrightarrow>
     same_thread w w' \<and> log_contents w' = log_contents w
     \<and> remote_calls w' = remote_calls w @ [(called, signature, args)]"
  by (auto simp: try_call_boolean_def java_call_boolean_def record_call_effect same_thread_def
      split: prod.splits dest!: try_call_outcome_Inr)

lemma try_call_long_Inl:
  "try_call_long P options func called signature args w = Inl (r, w') \<Longrightarrow>
     fault_code r \<and> detached_once w w'
     \<and> remote_calls w' = remote_calls w @ [(called, signature, args)]"
  by (auto simp: try_call_long_def java_call_long_def record_call_effect detached_once_def
      split: prod.splits dest!: try_call_outcome_Inl)

lemma try_call_long_Inr:
  "try_call_long P options func called signature args w = Inr (v, w') \<Longrightarrow>
     same_thread w w' \<and> log_contents w' = log_contents w
     \<and> remote_calls w' = remote_calls w @ [(called, signature, args)]"
  by (auto simp: try_call_long_def java_call_long_def record_call_effect same_thread_def
      split: prod.splits dest!: try_call_outcome_Inr)

lemma try_call_object_Inl:
  "try_call_object P options func called signature args w = Inl (r, w') \<Longrightarrow>
     fault_code r \<and> detached_once w w'
     \<and> remote_calls w' = remote_calls w @ [(called, signature, args)]"
  by (auto simp: try_call_object_def java_call_object_def record_call_effect detached_once_def
      split: prod.splits dest!: try_call_outcome_Inl)

lemma try_call_object_Inr:
  "try_call_object P options func called signature args w = Inr (v, w') \<Longrightarrow>
     same_thread w w' \<and> log_contents w' = log_contents w
     \<and> remote_calls w' = remote_calls w @ [(called, signature, args)]"
  by (auto simp: try_call_object_def java_call_object_def record_call_effect same_thread_def
      split: prod.splits dest!: try_call_outcome_Inr)

lemma try_void_call_Inl:
  "try_void_call P options func called signature args w = Inl (r, w') \<Longrightarrow>
     fault_code r \<and> detached_once w w'
     \<and> remote_calls w' = remote_calls w @ [(called, signature, args)]"
  by (auto simp: try_void_call_def java_call_void_def record_call_effect detached_once_def
      split: prod.splits dest!: try_call_outcome_Inl)

lemma try_void_call_Inr:
  "try_void_call P options func called signature args w = Inr (v, w') \<Longrightarrow>
     same_thread w w' \<and> log_contents w' = log_contents w
     \<and> remote_calls w' = remote_calls w @ [(called, signature, args)]"
  by (auto simp: try_void_call_def java_call_void_def record_call_effect same_thread_def
      split: prod.splits dest!: try_call_outcome_Inr)

lemmas try_effects =
  try_attach_Inl try_attach_Inr try_encode_Inl try_encode_Inr try_call_boolean_Inl
  try_call_boolean_Inr try_call_long_Inl try_call_long_Inr try_call_object_Inl
  try_call_object_Inr try_void_call_Inl try_void_call_Inr

lemma dfs_mknod_balanced:
  "\<not> attached w \<Longrightarrow> dfs_mknod P options path mode device w = (r, w') \<Longrightarrow> balanced w w'"
  by (auto simp: dfs_mknod_def balanced_def thread_defs java_detach_effect Let_def
      split: if_splits sum.splits dest!: try_effects)

section \<open>Attach and detach\<close>

lemma balanced_refl: "\<not> attached w \<Longrightarrow> balanced w w"
  by (simp add: balanced_def)

lemma dfs_getattr_balanced:
  "\<not> attached w \<Longrightarrow> dfs_getattr P options abi path status w = (r, out, w') \<Longrightarrow> balanced w w'"
  by (auto simp: dfs_getattr_def balanced_def thread_defs java_detach_effect detach_and_return_def Let_def
      split: if_splits sum.splits dest!: try_effects)

lemma dfs_mkdir_balanced:
  "\<not> attached w \<Longrightarrow> dfs_mkdir P options path mode w = (r, w') \<Longrightarrow> balanced w w'"
  by (auto simp: dfs_mkdir_def balanced_def thread_defs java_detach_effect Let_def
      split: if_splits sum.splits dest!: try_effects)

lemma dfs_delete_balanced:
  "\<not> attached w \<Longrightarrow> dfs_delete P options path w = (r, w') \<Longrightarrow> balanced w w'"
  by (auto simp: dfs_delete_def balanced_def thread_defs java_detach_effect detach_and_return_def
      log_error_detach_and_return_def log_write_real_frame
      split: if_splits sum.splits dest!: try_effects)

lemma dfs_truncate_balanced:
  "\<not> attached w \<Longrightarrow> dfs_truncate P options path new_size w = (r, w') \<Longrightarrow> balanced w w'"
  by (auto simp: dfs_truncate_def balanced_def thread_defs java_detach_effect detach_and_return_def
      log_error_detach_and_return_def log_write_real_frame Let_def
      split: if_splits sum.splits dest!: try_effects)

lemma dfs_open_balanced:
  "\<not> attached w \<Longrightarrow> dfs_open P options path file_info w = (r, out, w') \<Longrightarrow> balanced w w'"
  by (auto simp: dfs_open_def balanced_def thread_defs java_detach_effect Let_def
      split: if_splits sum.splits dest!: try_effects)

lemma java_decode_frame:
  "java_decode P byte_array buffer w = (ok, n, buffer', w') \<Longrightarrow>
     same_thread w w' \<and> remote_calls w' = remote_calls w \<and> log_contents w' = log_contents w"
  by (auto simp: java_decode_def same_thread_def split: prod.splits)

lemma java_decode_new_frame:
  "java_decode_new P byte_array w = (children, w') \<Longrightarrow>
     same_thread w w' \<and> remote_calls w' = remote_calls w \<and> log_contents w' = log_contents w"
  by (auto simp: java_decode_new_def same_thread_def split: prod.splits if_splits)

lemma java_encode_frame:
  "java_encode P bytes w = (array, w') \<Longrightarrow>
     same_thread w w' \<and> remote_calls w' = remote_calls w \<and> log_contents w' = log_contents w"
  by (auto simp: java_encode_def same_thread_def split: prod.splits)

lemma dfs_read_balanced:
  "\<not> attached w \<Longrightarrow> dfs_read P options path buffer len offset file_info w = (r, out, w')
     \<Longrightarrow> balanced w w'"
  by (auto simp: dfs_read_def balanced_def thread_defs java_detach_effect log_error_detach_and_return_def
      log_write_real_frame Let_def
      split: if_splits sum.splits prod.splits dest!: try_effects java_decode_frame)

lemma dfs_write_balanced:
  "\<not> attached w \<Longrightarrow> dfs_write P options path buffer len offset file_info w = (r, w')
     \<Longrightarrow> balanced w w'"
  by (auto simp: dfs_write_def balanced_def thread_defs java_detach_effect log_error_detach_and_return_def
      log_write_real_frame Let_def
      split: if_splits sum.splits prod.splits option.splits dest!: try_effects java_encode_frame)

lemma dfs_opendir_balanced:
  "\<not> attached w \<Longrightarrow> dfs_opendir P options path file_info w = (r, w') \<Longrightarrow> balanced w w'"
  by (auto simp: dfs_opendir_def balanced_def thread_defs java_detach_effect Let_def
      split: if_splits sum.splits dest!: try_effects)

lemma dfs_readdir_balanced:
  "\<not> attached w \<Longrightarrow> dfs_readdir P options path buffer fill offset file_info w = (r, out, w')
     \<Longrightarrow> balanced w w'"
  by (auto simp: dfs_readdir_def balanced_def thread_defs java_detach_effect log_error_detach_and_return_def
      detach_and_return_def log_write_real_frame
      split: if_splits sum.splits prod.splits option.splits
      dest!: try_effects java_decode_new_frame)

lemma dfs_access_balanced:
  "\<not> attached w \<Longrightarrow> dfs_access P options path mode w = (r, w') \<Longrightarrow> balanced w w'"
  by (auto simp: dfs_access_def balanced_def thread_defs java_detach_effect Let_def
      split: if_splits sum.splits dest!: try_effects)

lemma handle_balanced:
  assumes "\<not> attached w" and "handle P options abi request w = (r, w')"
  shows "balanced w w'"
proof (cases request)
  case (Getattr path status)
  with assms show ?thesis
    by (auto split: prod.splits dest: dfs_getattr_balanced)
next
  case (Open path file_info)
  with assms show ?thesis
    by (auto split: prod.splits dest: dfs_open_balanced)
next
  case (Read path buffer len offset file_info)
  with assms show ?thesis
    by (auto split: prod.splits dest: dfs_read_balanced)
next
  case (Readdir path buffer fill offset file_info)
  with assms show ?thesis
    by (auto split: prod.splits dest: dfs_readdir_balanced)
qed (use assms in \<open>auto dest: dfs_mknod_balanced dfs_mkdir_balanced dfs_delete_balanced
      dfs_truncate_balanced dfs_write_balanced dfs_opendir_balanced dfs_access_balanced
      balanced_refl\<close>)

lemma log_initialize_thread:
  "attached (snd (log_initialize P options w)) = attached w"
  "attach_count (snd (log_initialize P options w)) = attach_count w"
  "detach_count (snd (log_initialize P options w)) = detach_count w"
  by (simp_all add: log_initialize_def split: option.splits prod.splits)

lemma java_initialize_thread:
  "attached (snd (java_initialize P w)) = (if fst (java_initialize P w) then False else attached w)"
  "attach_count (snd (java_initialize P w))
     = (if fst (java_initialize P w) then Suc (attach_count w) else attach_count w)"
  "detach_count (snd (java_initialize P w))
     = (if fst (java_initialize P w) then Suc (detach_count w) else detach_count w)"
  by (simp_all add: java_initialize_def java_detach_def split: prod.splits)

lemma java_attach_thread:
  "attached (snd (java_attach P w)) = (if fst (java_attach P w) then True else attached w)"
  "attach_count (snd (java_attach P w))
     = (if fst (java_attach P w) then Suc (attach_count w) else attach_count w)"
  "detach_count (snd (java_attach P w)) = detach_count w"
  by (simp_all add: java_attach_def split: prod.splits)

lemma java_load_classes_thread:
  "attached (snd (java_load_classes P w)) = attached w"
  "attach_count (snd (java_load_classes P w)) = attach_count w"
  "detach_count (snd (java_load_classes P w)) = detach_count w"
  by (simp_all add: java_load_classes_def split: prod.splits)

lemma java_encode_thread:
  "attached (snd (java_encode P bytes w)) = attached w"
  "attach_count (snd (java_encode P bytes w)) = attach_count w"
  "detach_count (snd (java_encode P bytes w)) = detach_count w"
  by (simp_all add: java_encode_def split: prod.splits)

lemma java_call_void_thread:
  "attached (snd (java_call_void P called signature args w)) = attached w"
  "attach_count (snd (java_call_void P called signature args w)) = attach_count w"
  "detach_count (snd (java_call_void P called signature args w)) = detach_count w"
  by (simp_all add: java_call_void_def record_call_def split: prod.splits)

lemma log_write_thread:
  "attached (log_write P options func message w) = attached w"
  "attach_count (log_write P options func message w) = attach_count w"
  "detach_count (log_write P options func message w) = detach_count w"
  by (simp_all add: log_write_def log_write_real_frame)

lemma log_and_detach_thread:
  "\<not> attached (log_and_detach P options func message w)"
  "attach_count (log_and_detach P options func message w) = attach_count w"
  "detach_count (log_and_detach P options func message w) = Suc (detach_count w)"
  by (simp_all add: log_and_detach_def java_detach_effect log_write_real_frame)

lemma dfs_init_balanced:
  assumes "\<not> attached w"
  shows "balanced w (dfs_init P options w)"
  using assms
  by (simp add: dfs_init_def balanced_def case_prod_unfold log_initialize_thread
      java_initialize_thread java_attach_thread java_load_classes_thread java_encode_thread
      java_call_void_thread log_write_thread log_and_detach_thread java_detach_effect
      log_exception_real_frame split: option.splits)

lemma dfs_destroy_balanced: "\<not> attached w \<Longrightarrow> balanced w (dfs_destroy P w)"
  by (simp add: dfs_destroy_def java_destroy_def balanced_def)

text \<open>
  Claim C5. Every call of a handler that starts with the thread detached ends with the
  thread detached and has called \<^verbatim>\<open>java_detach\<close> exactly as often as it has attached the
  thread, on every exit path: whatever the platform answers to the attach, to the
  encodings and decodings and to the remote calls (a result, a fault, a failure), and
  whether or not a log is written. This holds for the eighteen members of the operations
  table that return a POSIX result, for \<^verbatim>\<open>dfs_init\<close> and for \<^verbatim>\<open>dfs_destroy\<close>. The thread counts as attached by
  a \<^verbatim>\<open>java_attach\<close> that returned true and by the creation of the virtual machine in
  \<^verbatim>\<open>java_initialize\<close>, which detaches it again at once.
\<close>

theorem attach_detach_balance:
  assumes "\<not> attached w"
  shows "balanced w (snd (handle P options abi request w))
       \<and> balanced w (dfs_init P options w)
       \<and> balanced w (dfs_destroy P w)"
  using assms handle_balanced [of w P options abi request] dfs_init_balanced [of w P options]
    dfs_destroy_balanced [of w P]
  by (cases "handle P options abi request w") simp

text \<open>
  A getattr whose remote call throws \<^verbatim>\<open>FileNotFoundException\<close>: \<open>-ENOENT\<close>, one attach, one
  detach. An initialization where everything succeeds: the machine is created, the thread
  is attached once more, and detached twice.
\<close>

theorem attach_detach_balance_witness:
  "fst (handle (demo_platform True (Some file_not_found)) options_default linux_x86_64
          (Getattr ''/a'' [] :: unit request) world_start) = - 2
   \<and> \<not> attached (snd (handle (demo_platform True (Some file_not_found)) options_default
          linux_x86_64 (Getattr ''/a'' [] :: unit request) world_start))
   \<and> attach_count (snd (handle (demo_platform True (Some file_not_found)) options_default
          linux_x86_64 (Getattr ''/a'' [] :: unit request) world_start)) = 1
   \<and> detach_count (snd (handle (demo_platform True (Some file_not_found)) options_default
          linux_x86_64 (Getattr ''/a'' [] :: unit request) world_start)) = 1
   \<and> \<not> attached (dfs_init (demo_platform True None) options_default world_start)
   \<and> attach_count (dfs_init (demo_platform True None) options_default world_start) = 2
   \<and> detach_count (dfs_init (demo_platform True None) options_default world_start) = 2"
proof -
  have h: "\<not> attached world_start"
    by (simp add: world_start_def)
  have c: "attach_count world_start = 0" "detach_count world_start = 0"
    by (simp_all add: world_start_def)
  have g: "dfs_getattr (demo_platform True (Some file_not_found)) options_default linux_x86_64
          ''/a'' [] world_start
     = (- 2, [], world_start\<lparr>attach_count := 1, detach_count := 1,
          remote_calls := [(''directory'', ''([B)Z'', [JByteArray ''/a''])]\<rparr>)"
    by (simp add: dfs_getattr_def macro_defs demo_defs options_default_def
        file_not_found_def exceptions_def IsInstanceOf_def dfs_is_root_def
        dfs_traversals_allowed_def dfs_may_access_def X_OK_def R_OK_def W_OK_def S_IXUSR_def
        DEFAULT_ERROR_def errno_defs)
  have i: "attach_count (dfs_init (demo_platform True None) options_default world_start) = 2"
    by (simp add: dfs_init_def macro_defs demo_defs options_default_def
        log_initialize_def java_initialize_def java_load_classes_def log_write_def
        log_and_detach_def)
  from attach_detach_balance [OF h, of "demo_platform True (Some file_not_found)"
      options_default linux_x86_64 "Getattr ''/a'' [] :: unit request"]
    attach_detach_balance [OF h, of "demo_platform True None" options_default linux_x86_64
      "Getattr ''/a'' [] :: unit request"]
  show ?thesis
    by (simp add: balanced_def g i h c)
qed

section \<open>Log silence\<close>

lemma quiet_not_fault: "quiet_result request r \<Longrightarrow> \<not> fault_code r \<or> opens_root request"
  by (auto simp: quiet_result_def fault_code_def errno_defs)

lemma quiet_not_eperm: "quiet_result request r \<Longrightarrow> r \<noteq> - EPERM \<or> deletes_root request"
  by (auto simp: quiet_result_def errno_defs)

lemma dfs_getattr_log:
  "dfs_getattr P options abi path status w = (r, out, w') \<Longrightarrow> \<not> fault_code r
     \<Longrightarrow> log_contents w' = log_contents w"
  by (auto simp: dfs_getattr_def detach_and_return_def java_detach_effect fault_code_EIO Let_def
      split: if_splits sum.splits dest!: try_effects)

lemma dfs_mknod_log:
  "dfs_mknod P options path mode device w = (r, w') \<Longrightarrow> \<not> fault_code r
     \<Longrightarrow> log_contents w' = log_contents w"
  by (auto simp: dfs_mknod_def java_detach_effect fault_code_EIO Let_def
      split: if_splits sum.splits dest!: try_effects)

lemma dfs_mkdir_log:
  "dfs_mkdir P options path mode w = (r, w') \<Longrightarrow> \<not> fault_code r
     \<Longrightarrow> log_contents w' = log_contents w"
  by (auto simp: dfs_mkdir_def java_detach_effect fault_code_EIO Let_def
      split: if_splits sum.splits dest!: try_effects)

lemma dfs_delete_log:
  "dfs_delete P options path w = (r, w') \<Longrightarrow> \<not> fault_code r
     \<Longrightarrow> r \<noteq> - EPERM \<or> path = ''/'' \<Longrightarrow> log_contents w' = log_contents w"
  by (auto simp: dfs_delete_def detach_and_return_def log_error_detach_and_return_def
      java_detach_effect fault_code_EIO dfs_is_root_def
      split: if_splits sum.splits dest!: try_effects)

lemma dfs_truncate_log:
  "dfs_truncate P options path new_size w = (r, w') \<Longrightarrow> \<not> fault_code r
     \<Longrightarrow> r \<noteq> - EPERM \<Longrightarrow> log_contents w' = log_contents w"
  by (auto simp: dfs_truncate_def detach_and_return_def log_error_detach_and_return_def
      java_detach_effect fault_code_EIO Let_def
      split: if_splits sum.splits dest!: try_effects)

lemma dfs_open_log:
  "dfs_open P options path file_info w = (r, out, w') \<Longrightarrow> \<not> fault_code r \<or> path = ''/''
     \<Longrightarrow> log_contents w' = log_contents w"
  by (auto simp: dfs_open_def java_detach_effect fault_code_EIO dfs_is_root_def Let_def
      split: if_splits sum.splits dest!: try_effects)

lemma dfs_read_log:
  "dfs_read P options path buffer len offset file_info w = (r, out, w') \<Longrightarrow> \<not> fault_code r
     \<Longrightarrow> log_contents w' = log_contents w"
  by (auto simp: dfs_read_def log_error_detach_and_return_def java_detach_effect fault_code_EIO
      Let_def split: if_splits sum.splits prod.splits dest!: try_effects java_decode_frame)

lemma dfs_write_log:
  "dfs_write P options path buffer len offset file_info w = (r, w') \<Longrightarrow> \<not> fault_code r
     \<Longrightarrow> log_contents w' = log_contents w"
  by (auto simp: dfs_write_def log_error_detach_and_return_def java_detach_effect fault_code_EIO
      Let_def split: if_splits sum.splits prod.splits option.splits
      dest!: try_effects java_encode_frame)

lemma dfs_opendir_log:
  "dfs_opendir P options path file_info w = (r, w') \<Longrightarrow> \<not> fault_code r
     \<Longrightarrow> log_contents w' = log_contents w"
  by (auto simp: dfs_opendir_def java_detach_effect fault_code_EIO Let_def
      split: if_splits sum.splits dest!: try_effects)

lemma dfs_readdir_log:
  "dfs_readdir P options path buffer fill offset file_info w = (r, out, w') \<Longrightarrow> \<not> fault_code r
     \<Longrightarrow> log_contents w' = log_contents w"
  by (auto simp: dfs_readdir_def detach_and_return_def log_error_detach_and_return_def
      java_detach_effect fault_code_EIO
      split: if_splits sum.splits prod.splits option.splits
      dest!: try_effects java_decode_new_frame)

lemma dfs_access_log:
  "dfs_access P options path mode w = (r, w') \<Longrightarrow> \<not> fault_code r
     \<Longrightarrow> log_contents w' = log_contents w"
  by (auto simp: dfs_access_def java_detach_effect fault_code_EIO Let_def
      split: if_splits sum.splits dest!: try_effects)

lemma handle_log:
  assumes "handle P options abi request w = (r, w')" and "quiet_result request r"
  shows "log_contents w' = log_contents w"
proof (cases request)
  case (Getattr path status)
  with assms quiet_not_fault [OF assms(2)] show ?thesis
    by (auto split: prod.splits dest: dfs_getattr_log)
next
  case (Unlink path)
  with assms quiet_not_fault [OF assms(2)] quiet_not_eperm [OF assms(2)] show ?thesis
    by (auto dest: dfs_delete_log)
next
  case (Rmdir path)
  with assms quiet_not_fault [OF assms(2)] quiet_not_eperm [OF assms(2)] show ?thesis
    by (auto dest: dfs_delete_log)
next
  case (Truncate path new_size)
  with assms quiet_not_fault [OF assms(2)] quiet_not_eperm [OF assms(2)] show ?thesis
    by (auto dest: dfs_truncate_log)
next
  case (Open path file_info)
  with assms quiet_not_fault [OF assms(2)] show ?thesis
    by (auto split: prod.splits dest: dfs_open_log)
next
  case (Read path buffer len offset file_info)
  with assms quiet_not_fault [OF assms(2)] show ?thesis
    by (auto split: prod.splits dest: dfs_read_log)
next
  case (Readdir path buffer fill offset file_info)
  with assms quiet_not_fault [OF assms(2)] show ?thesis
    by (auto split: prod.splits dest: dfs_readdir_log)
qed (use assms quiet_not_fault [OF assms(2)] in \<open>auto dest: dfs_mknod_log dfs_mkdir_log
      dfs_write_log dfs_opendir_log dfs_access_log\<close>)

text \<open>
  Claim C8, as the code has it. A sequence of calls leaves the log as it was when each of
  its results is \<open>-EACCES\<close>, \<open>-EEXIST\<close>, \<open>-EISDIR\<close> or \<open>-ENOTDIR\<close>, or is the \<open>-EPERM\<close> of an
  unlink or rmdir of the root, or is the \<open>-ENOENT\<close> of an open of the root. (The other
  \<open>-EPERM\<close>, for a remote delete that answered false, and the other \<open>-ENOENT\<close>, for a remote
  \<^verbatim>\<open>FileNotFoundException\<close>, are written to the log when a log file is configured.)
\<close>

theorem quiet_results_leave_log:
  assumes "list_all2 quiet_result requests (fst (handle_all P options abi requests w))"
  shows "log_contents (snd (handle_all P options abi requests w)) = log_contents w"
  using assms
proof (induction requests arbitrary: w)
  case Nil
  then show ?case by simp
next
  case (Cons request requests)
  obtain r w1 where h: "handle P options abi request w = (r, w1)"
    by (cases "handle P options abi request w")
  obtain rs w2 where a: "handle_all P options abi requests w1 = (rs, w2)"
    by (cases "handle_all P options abi requests w1")
  from Cons.prems h a have q: "quiet_result request r" "list_all2 quiet_result requests rs"
    by simp_all
  from Cons.IH [of w1] q(2) a have "log_contents w2 = log_contents w1"
    by simp
  moreover from handle_log [OF h q(1)] have "log_contents w1 = log_contents w" .
  ultimately show ?case
    using h a by simp
qed

text \<open>
  With a log file configured and a platform whose boolean methods answer false: unlink of
  the root, mknod of an existing file, opendir of a file and open of the root give
  \<open>-EPERM\<close>, \<open>-EEXIST\<close>, \<open>-ENOTDIR\<close> and \<open>-ENOENT\<close> and the log stays empty.
\<close>

theorem quiet_results_leave_log_witness:
  "fst (handle_all (demo_platform False None) (options_logging 420 493) linux_x86_64
          [Unlink ''/'', Mknod ''/a'' 0 0, Opendir ''/a'' (file_info_flags 0),
           Open ''/'' (file_info_flags 0) :: unit request] world_start) = [- 1, - 17, - 20, - 2]
   \<and> log_contents (snd (handle_all (demo_platform False None) (options_logging 420 493)
          linux_x86_64
          [Unlink ''/'', Mknod ''/a'' 0 0, Opendir ''/a'' (file_info_flags 0),
           Open ''/'' (file_info_flags 0) :: unit request] world_start)) = []"
proof -
  have r: "fst (handle_all (demo_platform False None) (options_logging 420 493) linux_x86_64
          [Unlink ''/'', Mknod ''/a'' 0 0, Opendir ''/a'' (file_info_flags 0),
           Open ''/'' (file_info_flags 0) :: unit request] world_start) = [- 1, - 17, - 20, - 2]"
    by (simp add: dfs_delete_def dfs_mknod_def dfs_opendir_def dfs_open_def macro_defs
        demo_defs dfs_is_root_def dfs_traversals_allowed_def
        dfs_directory_modification_allowed_def dfs_may_access_def X_OK_def R_OK_def W_OK_def
        S_IXUSR_def S_IWUSR_def S_IRUSR_def errno_defs)
  have q: "list_all2 quiet_result
        [Unlink ''/'', Mknod ''/a'' 0 0, Opendir ''/a'' (file_info_flags 0),
         Open ''/'' (file_info_flags 0) :: unit request] [- 1, - 17, - 20, - 2]"
    by (simp add: quiet_result_def errno_defs)
  have e: "log_contents world_start = []"
    by (simp add: world_start_def)
  from quiet_results_leave_log [where requests = "[Unlink ''/'', Mknod ''/a'' 0 0,
        Opendir ''/a'' (file_info_flags 0), Open ''/'' (file_info_flags 0) :: unit request]"
      and P = "demo_platform False None" and options = "options_logging 420 493"
      and abi = linux_x86_64 and w = world_start] q r e
  show ?thesis
    by simp
qed

text \<open>
  Claim C8 as stated fails. With a log file configured, an unlink of \<^verbatim>\<open>/a\<close> whose remote
  delete answers false returns \<open>-EPERM\<close> and writes a line to the log, and an open of \<^verbatim>\<open>/a\<close>
  whose remote \<^verbatim>\<open>size\<close> call throws \<^verbatim>\<open>FileNotFoundException\<close> returns \<open>-ENOENT\<close> and writes
  the exception to the log.
\<close>

theorem log_silence_counterexample:
  "handle_all (demo_platform False None) (options_logging 420 493) linux_x86_64
       [Unlink ''/a'' :: unit request] world_start
     = ([- 1],
        world_start\<lparr>attach_count := 1, detach_count := 1,
          remote_calls := [(''delete'', ''([B)Z'', [JByteArray ''/a''])],
          log_contents := ''dfs_delete: EPERM: cannot delete file or directory.'' @ newline\<rparr>)
   \<and> handle_all (demo_platform True (Some file_not_found)) (options_logging 420 493) linux_x86_64
       [Open ''/a'' (file_info_flags 0) :: unit request] world_start
     = ([- 2],
        world_start\<lparr>attach_count := 1, detach_count := 1,
          remote_calls := [(''size'', ''([B)J'', [JByteArray ''/a''])],
          log_contents := ''dfs_open: java.io.FileNotFoundException'' @ newline\<rparr>)"
  by (simp add: dfs_delete_def dfs_open_def macro_defs demo_defs file_not_found_def
      exceptions_def IsInstanceOf_def dfs_is_root_def dfs_traversals_allowed_def
      dfs_directory_modification_allowed_def dfs_may_access_def X_OK_def R_OK_def W_OK_def
      S_IXUSR_def S_IWUSR_def S_IRUSR_def CANNOT_DELETE_def DEFAULT_ERROR_def errno_defs)

section \<open>Offsets of read and write\<close>

lemma off_t_le_max: "\<not> LLONG_MAX < sint (offset :: off_t)"
  using sint_lt [of offset] by (simp add: LLONG_MAX_def)




lemma size_t_to_int_small:
  assumes "n \<le> 2147483647"
  shows "size_t_to_int n = int n"
proof -
  have "sint (word_of_int (int n) :: 32 word) = (int n + 2 ^ 31) mod 2 ^ 32 - 2 ^ 31"
    using int_word_sint [of "int n", where ?'a = 32] by simp
  moreover have "(int n + 2 ^ 31) mod 2 ^ 32 = int n + 2 ^ 31"
    using assms by (intro mod_pos_pos_trivial) auto
  ultimately show ?thesis
    by (simp add: size_t_to_int_def)
qed

lemma dfs_read_calls_remote:
  assumes "try_attach P options ''dfs_read'' w = Inr w1"
    and "try_encode P options ''dfs_read'' ''path'' path w1 = Inr (java_path, w2)"
  shows "remote_calls (snd (snd (dfs_read P options path buffer len offset file_info w)))
     = remote_calls w @
         [(''read'', ''([BJIJ)[B'',
           [JByteArray path, JLong offset, JInt (word_of_nat (min len 2147483647)),
            JLong (fh file_info)])]"
proof -
  have m: "(if INT_MAX < len then word_of_nat INT_MAX else word_of_nat len)
     = (word_of_nat (min len 2147483647) :: jint)"
    by (simp add: INT_MAX_def min_def)
  from try_attach_Inr [OF assms(1)] try_encode_Inr [OF assms(2)]
  have f: "java_path = path" "remote_calls w2 = remote_calls w"
    by simp_all
  show ?thesis
    using f
    by (auto simp: dfs_read_def off_t_le_max assms m Let_def log_error_detach_and_return_def
        java_detach_effect log_write_real_frame
        split: sum.splits prod.splits
        dest!: try_call_object_Inl try_call_object_Inr java_decode_frame)
qed




section \<open>Length saturation\<close>

lemma size_t_to_int_INT_MAX: "size_t_to_int 2147483647 = 2147483647"
  by (simp add: size_t_to_int_def)

lemma length_bytes_at: "length (bytes_at buffer n) = n"
  by (simp add: bytes_at_def)

lemma fault_code_negative: "fault_code r \<Longrightarrow> r < 0"
  by (auto simp: fault_code_def errno_defs)

lemma memset_at_saturated:
  assumes "i < 2147483647" and "2147483647 < len" and "len < 2 ^ 64"
  shows "memset_at b r c (size_t_minus len r) i = memset_at b r c (size_t_minus 2147483647 r) i"
proof (cases "r \<le> i")
  case False
  then show ?thesis by (simp add: memset_at_def)
next
  case True
  with assms have a: "(int len - int r) mod 2 ^ 64 = int len - int r"
    by (intro mod_pos_pos_trivial) auto
  from True assms have b: "(2147483647 - int r) mod 2 ^ 64 = 2147483647 - int r"
    by (intro mod_pos_pos_trivial) auto
  show ?thesis
    using True assms by (simp add: memset_at_def size_t_minus_def a b)
qed

lemma dfs_read_saturated:
  assumes "2147483647 < len" and "len < 2 ^ 64"
  shows "fst (dfs_read P options path buffer len offset file_info w)
       = fst (dfs_read P options path buffer 2147483647 offset file_info w)"
    and "snd (snd (dfs_read P options path buffer len offset file_info w))
       = snd (snd (dfs_read P options path buffer 2147483647 offset file_info w))"
    and "i < 2147483647 \<Longrightarrow>
         fst (snd (dfs_read P options path buffer len offset file_info w)) i
       = fst (snd (dfs_read P options path buffer 2147483647 offset file_info w)) i"
  using assms memset_at_saturated [of i len]
  by (auto simp: dfs_read_def INT_MAX_def Let_def memset_at_def
      split: sum.splits prod.splits)

lemma dfs_write_saturated:
  assumes "2147483647 < len"
  shows "dfs_write P options path buffer len offset file_info w
       = dfs_write P options path buffer 2147483647 offset file_info w"
  using assms by (simp add: dfs_write_def INT_MAX_def)

lemma dfs_read_calls:
  assumes "dfs_read P options path buffer len offset file_info w = (r, out, w')"
  shows "remote_calls w' = remote_calls w
     \<or> remote_calls w' = remote_calls w @
          [(''read'', ''([BJIJ)[B'',
            [JByteArray path, JLong offset,
             JInt (if len > INT_MAX then word_of_nat INT_MAX else word_of_nat len),
             JLong (fh file_info)])]"
  using assms
  by (auto simp: dfs_read_def log_error_detach_and_return_def java_detach_effect
      log_write_real_frame Let_def
      split: if_splits sum.splits prod.splits dest!: try_effects java_decode_frame)

lemma dfs_write_calls:
  assumes "dfs_write P options path buffer len offset file_info w = (r, w')"
  shows "(r < 0 \<and> remote_calls w' = remote_calls w)
     \<or> ((r < 0 \<or> r = size_t_to_int (if len > INT_MAX then INT_MAX else len))
        \<and> remote_calls w' = remote_calls w @
          [(''write'', ''([BJ[B)V'',
            [JByteArray path, JLong offset,
             JByteArray (bytes_at buffer (if len > INT_MAX then INT_MAX else len))])])"
  using assms
  by (auto simp: dfs_write_def log_error_detach_and_return_def java_detach_effect
      log_write_real_frame java_encode_def Let_def errno_defs
      split: if_splits sum.splits prod.splits option.splits
      dest!: try_effects fault_code_negative)

lemma memset_after_copy:
  assumes "length received \<le> len" and "len < 2 ^ 64"
  shows "memset_at (memcpy_to buffer received) (length received) c
           (size_t_minus len (length received))
       = (\<lambda>i. if i < length received then received ! i else if i < len then c else buffer i)"
proof -
  have "(int len - int (length received)) mod 2 ^ 64 = int len - int (length received)"
    using assms by (intro mod_pos_pos_trivial) auto
  then have "size_t_minus len (length received) = len - length received"
    by (simp add: size_t_minus_def)
  with assms(1) show ?thesis
    by (auto simp: fun_eq_iff memset_at_def memcpy_to_def)
qed

lemma dfs_read_success:
  assumes "try_attach P options ''dfs_read'' w = Inr w1"
    and "try_encode P options ''dfs_read'' ''path'' path w1 = Inr (java_path, w2)"
    and "try_call_object P options ''dfs_read'' ''read'' ''([BJIJ)[B''
           [JByteArray java_path, JLong offset, JInt (word_of_nat (min len 2147483647)),
            JLong (fh file_info)] w2 = Inr (received, w3)"
    and "decode_ok P (outside w3) received = (True, s4)"
    and "length received \<le> 2147483647" and "length received \<le> len" and "len < 2 ^ 64"
  shows "dfs_read P options path buffer len offset file_info w
     = (int (length received),
        (\<lambda>i. if i < length received then received ! i
             else if i < len then CHR 0x00 else buffer i),
        java_detach P (w3\<lparr>outside := s4\<rparr>))"
proof -
  have m: "(if INT_MAX < len then word_of_nat INT_MAX else word_of_nat len)
     = (word_of_nat (min len 2147483647) :: jint)"
    by (simp add: INT_MAX_def min_def)
  show ?thesis
    by (simp add: dfs_read_def off_t_le_max assms(1-4) m java_decode_def Let_def
        size_t_to_int_small [OF assms(5)] memset_after_copy [OF assms(6,7)])
qed

lemma dfs_write_calls_remote:
  assumes "\<not> LLONG_MAX < uint (offset + word_of_nat (min len 2147483647))"
    and "try_attach P options ''dfs_write'' w = Inr w1"
    and "try_encode P options ''dfs_write'' ''path'' path w1 = Inr (java_path, w2)"
    and "java_encode P (bytes_at buffer (min len 2147483647)) w2 = (Some java_buffer, w3)"
  shows "remote_calls (snd (dfs_write P options path buffer len offset file_info w))
     = remote_calls w @
         [(''write'', ''([BJ[B)V'',
           [JByteArray path, JLong offset, JByteArray (bytes_at buffer (min len 2147483647))])]"
proof -
  have m: "(if INT_MAX < len then INT_MAX else len) = min len 2147483647"
    by (simp add: INT_MAX_def min_def)
  from try_attach_Inr [OF assms(2)] try_encode_Inr [OF assms(3)] java_encode_frame [OF assms(4)]
  have f: "java_path = path" "remote_calls w3 = remote_calls w"
    by simp_all
  have b: "java_buffer = bytes_at buffer (min len 2147483647)"
    using assms(4) by (auto simp: java_encode_def split: prod.splits if_splits)
  show ?thesis
    using f b
    by (auto simp: dfs_write_def off_t_le_max assms m Let_def java_detach_effect
        split: sum.splits prod.splits
        dest!: try_void_call_Inl try_void_call_Inr)
qed

lemma dfs_write_success:
  assumes "\<not> LLONG_MAX < uint (offset + word_of_nat (min len 2147483647))"
    and "try_attach P options ''dfs_write'' w = Inr w1"
    and "try_encode P options ''dfs_write'' ''path'' path w1 = Inr (java_path, w2)"
    and "java_encode P (bytes_at buffer (min len 2147483647)) w2 = (Some java_buffer, w3)"
    and "try_void_call P options ''dfs_write'' ''write'' ''([BJ[B)V''
           [JByteArray java_path, JLong offset, JByteArray java_buffer] w3 = Inr (u, w4)"
  shows "dfs_write P options path buffer len offset file_info w
     = (int (min len 2147483647), java_detach P w4)"
proof -
  have m: "(if INT_MAX < len then INT_MAX else len) = min len 2147483647"
    by (simp add: INT_MAX_def min_def)
  show ?thesis
    by (simp add: dfs_write_def off_t_le_max assms m Let_def size_t_to_int_small)
qed

text \<open>
  Claim C7, as the code has it. Let the requested length be greater than \<open>2^31 - 1\<close> (and
  less than \<open>2^64\<close>, as a \<^verbatim>\<open>size_t\<close> is). A write is equal to the write with the length
  \<open>2^31 - 1\<close> altogether: every remote call it makes is \<^verbatim>\<open>write\<close> with the first
  \<open>2^31 - 1\<close> bytes of the buffer, it makes that call when it is not refused as too big,
  the thread attaches and both encodings succeed, and when the call returns the result
  is \<open>2^31 - 1\<close>. A read returns the same result, leaves the same state and the same first
  \<open>2^31 - 1\<close> bytes of the buffer as the read with the length \<open>2^31 - 1\<close>; every remote
  call it makes is \<^verbatim>\<open>read\<close> with the length \<open>2^31 - 1\<close>, and it makes that call when the
  thread attaches and the path is encoded. But the read clears the buffer after the
  received bytes up to the requested length, not up to \<open>2^31 - 1\<close>: when the call returns
  at most \<open>2^31 - 1\<close> bytes that are decoded, the result is their number and the buffer
  holds them, then zero bytes up to the requested length.
\<close>

theorem length_saturation:
  assumes "2147483647 < len" and "len < 2 ^ 64"
  shows "fst (dfs_read P options path buffer len offset file_info w)
       = fst (dfs_read P options path buffer 2147483647 offset file_info w)
   \<and> snd (snd (dfs_read P options path buffer len offset file_info w))
       = snd (snd (dfs_read P options path buffer 2147483647 offset file_info w))
   \<and> (\<forall>i < 2147483647.
         fst (snd (dfs_read P options path buffer len offset file_info w)) i
       = fst (snd (dfs_read P options path buffer 2147483647 offset file_info w)) i)
   \<and> (\<forall>c \<in> set (drop (length (remote_calls w))
                   (remote_calls (snd (snd (dfs_read P options path buffer len offset file_info w))))).
         c = (''read'', ''([BJIJ)[B'',
            [JByteArray path, JLong offset, JInt 2147483647, JLong (fh file_info)]))
   \<and> (try_attach P options ''dfs_read'' w = Inr w1
        \<and> try_encode P options ''dfs_read'' ''path'' path w1 = Inr (java_path, w2) \<longrightarrow>
        remote_calls (snd (snd (dfs_read P options path buffer len offset file_info w)))
          = remote_calls w @ [(''read'', ''([BJIJ)[B'',
            [JByteArray path, JLong offset, JInt 2147483647, JLong (fh file_info)])])
   \<and> (try_attach P options ''dfs_read'' w = Inr w1
        \<and> try_encode P options ''dfs_read'' ''path'' path w1 = Inr (java_path, w2)
        \<and> try_call_object P options ''dfs_read'' ''read'' ''([BJIJ)[B''
              [JByteArray java_path, JLong offset, JInt 2147483647, JLong (fh file_info)] w2
            = Inr (received, w3)
        \<and> decode_ok P (outside w3) received = (True, s4)
        \<and> length received \<le> 2147483647 \<longrightarrow>
        dfs_read P options path buffer len offset file_info w
          = (int (length received),
             (\<lambda>i. if i < length received then received ! i
                  else if i < len then CHR 0x00 else buffer i),
             java_detach P (w3\<lparr>outside := s4\<rparr>)))
   \<and> dfs_write P options path buffer len offset file_info w
       = dfs_write P options path buffer 2147483647 offset file_info w
   \<and> (\<forall>c \<in> set (drop (length (remote_calls w))
                   (remote_calls (snd (dfs_write P options path buffer len offset file_info w)))).
         c = (''write'', ''([BJ[B)V'',
            [JByteArray path, JLong offset, JByteArray (bytes_at buffer 2147483647)]))
   \<and> (uint (offset + 2147483647) \<le> 9223372036854775807
        \<and> try_attach P options ''dfs_write'' w = Inr v1
        \<and> try_encode P options ''dfs_write'' ''path'' path v1 = Inr (write_path, v2)
        \<and> java_encode P (bytes_at buffer 2147483647) v2 = (Some java_buffer, v3) \<longrightarrow>
        remote_calls (snd (dfs_write P options path buffer len offset file_info w))
          = remote_calls w @ [(''write'', ''([BJ[B)V'',
            [JByteArray path, JLong offset, JByteArray (bytes_at buffer 2147483647)])])
   \<and> (uint (offset + 2147483647) \<le> 9223372036854775807
        \<and> try_attach P options ''dfs_write'' w = Inr v1
        \<and> try_encode P options ''dfs_write'' ''path'' path v1 = Inr (write_path, v2)
        \<and> java_encode P (bytes_at buffer 2147483647) v2 = (Some java_buffer, v3)
        \<and> try_void_call P options ''dfs_write'' ''write'' ''([BJ[B)V''
              [JByteArray write_path, JLong offset, JByteArray java_buffer] v3 = Inr (u, v4) \<longrightarrow>
        dfs_write P options path buffer len offset file_info w = (2147483647, java_detach P v4))
   \<and> length (bytes_at buffer 2147483647) = 2147483647
   \<and> (0 \<le> fst (dfs_write P options path buffer len offset file_info w) \<longrightarrow>
        fst (dfs_write P options path buffer len offset file_info w) = 2147483647)"
proof -
  obtain r out w' where rd: "dfs_read P options path buffer len offset file_info w = (r, out, w')"
    by (cases "dfs_read P options path buffer len offset file_info w")
  obtain q w'' where wr: "dfs_write P options path buffer len offset file_info w = (q, w'')"
    by (cases "dfs_write P options path buffer len offset file_info w")
  have c1: "\<forall>c \<in> set (drop (length (remote_calls w)) (remote_calls w')).
         c = (''read'', ''([BJIJ)[B'',
            [JByteArray path, JLong offset, JInt 2147483647, JLong (fh file_info)])"
    using dfs_read_calls [OF rd] assms(1) by (auto simp: INT_MAX_def)
  have c2: "\<forall>c \<in> set (drop (length (remote_calls w)) (remote_calls w'')).
         c = (''write'', ''([BJ[B)V'',
            [JByteArray path, JLong offset, JByteArray (bytes_at buffer 2147483647)])"
    using dfs_write_calls [OF wr] assms(1) by (auto simp: INT_MAX_def)
  have c3: "0 \<le> q \<longrightarrow> q = 2147483647"
    using dfs_write_calls [OF wr] assms(1)
    by (auto simp: INT_MAX_def size_t_to_int_INT_MAX)
  show ?thesis
  proof (intro conjI)
    show "fst (dfs_read P options path buffer len offset file_info w)
       = fst (dfs_read P options path buffer 2147483647 offset file_info w)"
      by (rule dfs_read_saturated(1) [OF assms])
    show "snd (snd (dfs_read P options path buffer len offset file_info w))
       = snd (snd (dfs_read P options path buffer 2147483647 offset file_info w))"
      by (rule dfs_read_saturated(2) [OF assms])
    show "\<forall>i < 2147483647.
         fst (snd (dfs_read P options path buffer len offset file_info w)) i
       = fst (snd (dfs_read P options path buffer 2147483647 offset file_info w)) i"
      using dfs_read_saturated(3) [OF assms] by blast
    show "\<forall>c \<in> set (drop (length (remote_calls w))
                   (remote_calls (snd (snd (dfs_read P options path buffer len offset file_info w))))).
         c = (''read'', ''([BJIJ)[B'',
            [JByteArray path, JLong offset, JInt 2147483647, JLong (fh file_info)])"
      using c1 by (simp add: rd)
    show "try_attach P options ''dfs_read'' w = Inr w1
        \<and> try_encode P options ''dfs_read'' ''path'' path w1 = Inr (java_path, w2) \<longrightarrow>
        remote_calls (snd (snd (dfs_read P options path buffer len offset file_info w)))
          = remote_calls w @ [(''read'', ''([BJIJ)[B'',
            [JByteArray path, JLong offset, JInt 2147483647, JLong (fh file_info)])]"
      using dfs_read_calls_remote [of P options w w1 path java_path w2 buffer len offset file_info] assms(1)
      by (simp add: min_def)
    show "try_attach P options ''dfs_read'' w = Inr w1
        \<and> try_encode P options ''dfs_read'' ''path'' path w1 = Inr (java_path, w2)
        \<and> try_call_object P options ''dfs_read'' ''read'' ''([BJIJ)[B''
              [JByteArray java_path, JLong offset, JInt 2147483647, JLong (fh file_info)] w2
            = Inr (received, w3)
        \<and> decode_ok P (outside w3) received = (True, s4)
        \<and> length received \<le> 2147483647 \<longrightarrow>
        dfs_read P options path buffer len offset file_info w
          = (int (length received),
             (\<lambda>i. if i < length received then received ! i
                  else if i < len then CHR 0x00 else buffer i),
             java_detach P (w3\<lparr>outside := s4\<rparr>))"
      using dfs_read_success [of P options w w1 path java_path w2 offset len file_info received w3 s4 buffer]
        assms by (simp add: min_def)
    show "dfs_write P options path buffer len offset file_info w
       = dfs_write P options path buffer 2147483647 offset file_info w"
      by (rule dfs_write_saturated [OF assms(1)])
    show "\<forall>c \<in> set (drop (length (remote_calls w))
                   (remote_calls (snd (dfs_write P options path buffer len offset file_info w)))).
         c = (''write'', ''([BJ[B)V'',
            [JByteArray path, JLong offset, JByteArray (bytes_at buffer 2147483647)])"
      using c2 by (simp add: wr)
    show "uint (offset + 2147483647) \<le> 9223372036854775807
        \<and> try_attach P options ''dfs_write'' w = Inr v1
        \<and> try_encode P options ''dfs_write'' ''path'' path v1 = Inr (write_path, v2)
        \<and> java_encode P (bytes_at buffer 2147483647) v2 = (Some java_buffer, v3) \<longrightarrow>
        remote_calls (snd (dfs_write P options path buffer len offset file_info w))
          = remote_calls w @ [(''write'', ''([BJ[B)V'',
            [JByteArray path, JLong offset, JByteArray (bytes_at buffer 2147483647)])]"
      using dfs_write_calls_remote [of offset len P options w v1 path write_path v2 buffer java_buffer v3 file_info]
        assms(1) by (simp add: min_def LLONG_MAX_def)
    show "uint (offset + 2147483647) \<le> 9223372036854775807
        \<and> try_attach P options ''dfs_write'' w = Inr v1
        \<and> try_encode P options ''dfs_write'' ''path'' path v1 = Inr (write_path, v2)
        \<and> java_encode P (bytes_at buffer 2147483647) v2 = (Some java_buffer, v3)
        \<and> try_void_call P options ''dfs_write'' ''write'' ''([BJ[B)V''
              [JByteArray write_path, JLong offset, JByteArray java_buffer] v3 = Inr (u, v4) \<longrightarrow>
        dfs_write P options path buffer len offset file_info w = (2147483647, java_detach P v4)"
      using dfs_write_success [of offset len P options w v1 path write_path v2 buffer java_buffer v3 u v4 file_info]
        assms(1) by (simp add: min_def LLONG_MAX_def)
    show "length (bytes_at buffer 2147483647) = 2147483647"
      by (rule length_bytes_at)
    show "0 \<le> fst (dfs_write P options path buffer len offset file_info w) \<longrightarrow>
        fst (dfs_write P options path buffer len offset file_info w) = 2147483647"
      using c3 by (simp add: wr)
  qed
qed

text \<open>
  A read and a write of \<open>2^31\<close> bytes at offset 0. The read asks for \<open>2^31 - 1\<close> bytes,
  returns the 3 bytes received and clears the buffer up to its last byte, the byte
  \<open>2^31 - 1\<close>; the write passes \<open>2^31 - 1\<close> bytes on and returns \<open>2^31 - 1\<close>.
\<close>

theorem length_saturation_witness:
  "fst (dfs_read (demo_platform True None) options_default ''/a'' (\<lambda>i. CHR ''x'') 2147483648 0
          (file_info_flags 0) world_start) = 3
   \<and> fst (snd (dfs_read (demo_platform True None) options_default ''/a'' (\<lambda>i. CHR ''x'') 2147483648 0
          (file_info_flags 0) world_start)) 2147483647 = CHR 0x00
   \<and> remote_calls (snd (snd (dfs_read (demo_platform True None) options_default ''/a'' (\<lambda>i. CHR ''x'') 2147483648 0
          (file_info_flags 0) world_start)))
       = [(''read'', ''([BJIJ)[B'', [JByteArray ''/a'', JLong 0, JInt 2147483647, JLong 0])]
   \<and> dfs_write (demo_platform True None) options_default ''/a'' (\<lambda>i. CHR ''x'') 2147483648 0
          (file_info_flags 0) world_start
       = (2147483647,
          world_start\<lparr>attach_count := 1, detach_count := 1,
            remote_calls := [(''write'', ''([BJ[B)V'',
              [JByteArray ''/a'', JLong 0,
               JByteArray (bytes_at (\<lambda>i. CHR ''x'') 2147483647)])]\<rparr>)"
proof -
  have l: "(2147483647 :: nat) < 2147483648" "(2147483648 :: nat) < 2 ^ 64"
    by simp_all
  have hr: "try_attach (demo_platform True None) options_default ''dfs_read'' world_start = Inr (world_start\<lparr>attached := True, attach_count := 1\<rparr>)
        \<and> try_encode (demo_platform True None) options_default ''dfs_read'' ''path'' ''/a'' (world_start\<lparr>attached := True, attach_count := 1\<rparr>)
            = Inr (''/a'', (world_start\<lparr>attached := True, attach_count := 1\<rparr>))
        \<and> try_call_object (demo_platform True None) options_default ''dfs_read'' ''read'' ''([BJIJ)[B''
              [JByteArray ''/a'', JLong 0, JInt 2147483647, JLong (fh (file_info_flags 0))]
              (world_start\<lparr>attached := True, attach_count := 1\<rparr>)
            = Inr ([CHR ''a'', CHR 0x00, CHR ''b''], (world_start\<lparr>attached := True, attach_count := 1,
          remote_calls := [(''read'', ''([BJIJ)[B'',
            [JByteArray ''/a'', JLong 0, JInt 2147483647, JLong (fh (file_info_flags 0))])]\<rparr>))
        \<and> decode_ok (demo_platform True None) (outside (world_start\<lparr>attached := True, attach_count := 1,
          remote_calls := [(''read'', ''([BJIJ)[B'',
            [JByteArray ''/a'', JLong 0, JInt 2147483647, JLong (fh (file_info_flags 0))])]\<rparr>)) [CHR ''a'', CHR 0x00, CHR ''b''] = (True, ())
        \<and> length [CHR ''a'', CHR 0x00, CHR ''b''] \<le> 2147483647"
    by (simp add: macro_defs demo_defs)
  have hw: "uint ((0 :: off_t) + 2147483647) \<le> 9223372036854775807
        \<and> try_attach (demo_platform True None) options_default ''dfs_write'' world_start = Inr (world_start\<lparr>attached := True, attach_count := 1\<rparr>)
        \<and> try_encode (demo_platform True None) options_default ''dfs_write'' ''path'' ''/a'' (world_start\<lparr>attached := True, attach_count := 1\<rparr>)
            = Inr (''/a'', (world_start\<lparr>attached := True, attach_count := 1\<rparr>))
        \<and> java_encode (demo_platform True None) (bytes_at (\<lambda>i. CHR ''x'') 2147483647) (world_start\<lparr>attached := True, attach_count := 1\<rparr>)
            = (Some (bytes_at (\<lambda>i. CHR ''x'') 2147483647), (world_start\<lparr>attached := True, attach_count := 1\<rparr>))
        \<and> try_void_call (demo_platform True None) options_default ''dfs_write'' ''write'' ''([BJ[B)V''
              [JByteArray ''/a'', JLong 0,
               JByteArray (bytes_at (\<lambda>i. CHR ''x'') 2147483647)] (world_start\<lparr>attached := True, attach_count := 1\<rparr>)
            = Inr ((), (world_start\<lparr>attached := True, attach_count := 1,
          remote_calls := [(''write'', ''([BJ[B)V'',
            [JByteArray ''/a'', JLong 0,
             JByteArray (bytes_at (\<lambda>i. CHR ''x'') 2147483647)])]\<rparr>))"
    by (simp add: macro_defs demo_defs)
  note t = length_saturation [OF l, where P = "demo_platform True None"
      and options = options_default and path = "''/a''" and buffer = "\<lambda>i. CHR ''x''"
      and offset = 0 and file_info = "file_info_flags 0" and w = world_start
      and ?w1.0 = "world_start\<lparr>attached := True, attach_count := 1\<rparr>"
      and java_path = "''/a''"
      and ?w2.0 = "world_start\<lparr>attached := True, attach_count := 1\<rparr>"
      and received = "[CHR ''a'', CHR 0x00, CHR ''b'']"
      and ?w3.0 = "world_start\<lparr>attached := True, attach_count := 1,
          remote_calls := [(''read'', ''([BJIJ)[B'',
            [JByteArray ''/a'', JLong 0, JInt 2147483647, JLong (fh (file_info_flags 0))])]\<rparr>"
      and ?s4.0 = "()"
      and ?v1.0 = "world_start\<lparr>attached := True, attach_count := 1\<rparr>"
      and write_path = "''/a''"
      and ?v2.0 = "world_start\<lparr>attached := True, attach_count := 1\<rparr>"
      and java_buffer = "bytes_at (\<lambda>i. CHR ''x'') 2147483647"
      and ?v3.0 = "world_start\<lparr>attached := True, attach_count := 1\<rparr>"
      and u = "()"
      and ?v4.0 = "world_start\<lparr>attached := True, attach_count := 1,
          remote_calls := [(''write'', ''([BJ[B)V'',
            [JByteArray ''/a'', JLong 0,
             JByteArray (bytes_at (\<lambda>i. CHR ''x'') 2147483647)])]\<rparr>"]
  note e = mp [OF t [THEN conjunct2, THEN conjunct2, THEN conjunct2, THEN conjunct2, THEN conjunct2, THEN conjunct1] hr]
  note h = mp [OF t [THEN conjunct2, THEN conjunct2, THEN conjunct2, THEN conjunct2, THEN conjunct2, THEN conjunct2, THEN conjunct2, THEN conjunct2, THEN conjunct2, THEN conjunct1] hw]
  show ?thesis
    by (simp only: e h) (simp add: java_detach_def world_start_def file_info_flags_def)
qed

text \<open>
  Claim C7 as stated fails for the read: it does not behave as the read with the length
  \<open>2^31 - 1\<close>. With 3 bytes received, the read of \<open>2^31\<close> bytes clears byte \<open>2^31 - 1\<close> of
  the buffer, the read of \<open>2^31 - 1\<close> bytes leaves it as it was.
\<close>

theorem length_saturation_counterexample:
  "fst (snd (dfs_read (demo_platform True None) options_default ''/a'' (\<lambda>i. CHR ''x'')
          2147483648 0 (file_info_flags 0) world_start)) 2147483647 = CHR 0x00
   \<and> fst (snd (dfs_read (demo_platform True None) options_default ''/a'' (\<lambda>i. CHR ''x'')
          2147483647 0 (file_info_flags 0) world_start)) 2147483647 = CHR ''x''"
  by (simp add: dfs_read_def macro_defs demo_defs memcpy_to_def memset_at_def size_t_minus_def)

end
